theory Spec2Isabelle
  imports Complex_Main "HOL-Library.Log_Nat"
begin

section \<open>Python floats\<close>

text \<open>
  Every number of \<^verbatim>\<open>paper_exchange.py\<close> and \<^verbatim>\<open>risk_manager.py\<close> that is not a
  counter is a Python \<^verbatim>\<open>float\<close>, an IEEE-754 binary64 value. A float is modelled as the real
  number it denotes, and every arithmetic operation rounds its exact result to the nearest
  number with a 53-bit significand, ties to the even significand. The arguments of the
  program are finite floats: a NaN or an infinity is not a value of this type. The exponent
  range of the operations is unbounded; where binary64 overflows and returns an infinity,
  the result here has a magnitude of \<open>2 ^ 1024\<close> or more, and \<^verbatim>\<open>int\<close>, the one operation
  of the program that raises on an infinity, checks for it.
\<close>

definition round_half_even :: "real \<Rightarrow> int" where
  "round_half_even x =
     (let f = \<lfloor>x\<rfloor>; d = x - of_int f
      in if d < 1 / 2 then f else if 1 / 2 < d then f + 1 else if even f then f else f + 1)"

text \<open>\<open>ilog2 x\<close> is the binary exponent of a positive \<open>x\<close>: \<open>2 ^ ilog2 x \<le> x < 2 ^ (ilog2 x + 1)\<close>.\<close>

definition ilog2 :: "real \<Rightarrow> int" where
  "ilog2 x = (if 1 \<le> x then bitlen \<lfloor>x\<rfloor> - 1 else - bitlen (\<lceil>1 / x\<rceil> - 1))"

definition fl :: "real \<Rightarrow> real" where
  "fl x = (if x = 0 then 0
           else let e = ilog2 \<bar>x\<bar> - 52
                in of_int (round_half_even (x * 2 powi (- e))) * 2 powi e)"

definition fadd :: "real \<Rightarrow> real \<Rightarrow> real" where
  "fadd a b = fl (a + b)"

definition fsub :: "real \<Rightarrow> real \<Rightarrow> real" where
  "fsub a b = fl (a - b)"

definition fmul :: "real \<Rightarrow> real \<Rightarrow> real" where
  "fmul a b = fl (a * b)"

datatype py_error = ZeroDivisionError | OverflowError

definition fdiv :: "real \<Rightarrow> real \<Rightarrow> py_error + real" where
  "fdiv a b = (if b = 0 then Inl ZeroDivisionError else Inr (fl (a / b)))"

text \<open>An \<^verbatim>\<open>int\<close> operand of a float operation is converted to the nearest float first.\<close>

definition float_of_int :: "int \<Rightarrow> real" where
  "float_of_int n = fl (of_int n)"

text \<open>\<^verbatim>\<open>round(x, n)\<close>: the decimal rounding of the exact value, half to even, as a float.\<close>

definition py_round :: "real \<Rightarrow> nat \<Rightarrow> real" where
  "py_round x n = fl (of_int (round_half_even (x * 10 ^ n)) / 10 ^ n)"

text \<open>
  \<^verbatim>\<open>int(x)\<close> truncates towards zero, and raises \<^verbatim>\<open>OverflowError\<close> on an infinity, which
  is what a binary64 operation returns for a result of magnitude \<open>2 ^ 1024\<close> or more.
\<close>

definition py_int :: "real \<Rightarrow> py_error + int" where
  "py_int x =
     (if 2 ^ 1024 \<le> \<bar>x\<bar> then Inl OverflowError
      else Inr (if 0 \<le> x then \<lfloor>x\<rfloor> else \<lceil>x\<rceil>))"

section \<open>paper\_exchange.py\<close>

datatype outcome = WIN | LOSS

record trade_record =
  tr_time :: string
  tr_symbol :: string
  tr_action :: string
  tr_price :: real
  tr_pnl :: real
  tr_result :: outcome
  tr_reasoning :: string

record PaperExchange =
  balance :: real
  pnl :: real
  history :: "trade_record list"

text \<open>
  What \<^verbatim>\<open>execute_order\<close> reads from outside the program: the three random draws
  (\<^verbatim>\<open>random.choice([0, 0.25, 0.5])\<close>, \<^verbatim>\<open>random.choice(["WIN", "LOSS", "WIN"])\<close>,
  \<^verbatim>\<open>random.uniform(1.5, 3.0)\<close>) and the formatted clock.
\<close>

record draws =
  slippage :: real
  outcome :: outcome
  rr :: real
  now :: string

definition valid_draws :: "draws \<Rightarrow> bool" where
  "valid_draws d \<longleftrightarrow>
     (slippage d = 0 \<or> slippage d = 1 / 4 \<or> slippage d = 1 / 2) \<and> 3 / 2 \<le> rr d \<and> rr d \<le> 3"

definition PaperExchange_init :: PaperExchange where
  "PaperExchange_init = \<lparr>balance = 100000, pnl = 0, history = []\<rparr>"

definition reset :: "PaperExchange \<Rightarrow> bool \<times> PaperExchange" where
  "reset self = (True, self\<lparr>balance := 100000, pnl := 0, history := []\<rparr>)"

definition fill_price :: "draws \<Rightarrow> string \<Rightarrow> real \<Rightarrow> real" where
  "fill_price d action price =
     (if action = ''BUY'' then fadd price (slippage d) else fsub price (slippage d))"

definition commission :: "int \<Rightarrow> real" where
  "commission quantity = fmul 2 (float_of_int quantity)"

definition profit :: "draws \<Rightarrow> real \<Rightarrow> real \<Rightarrow> int \<Rightarrow> real" where
  "profit d fill stop quantity =
     (case outcome d of
        WIN \<Rightarrow>
          (let risk_amt = fmul (fmul \<bar>fsub fill stop\<bar> (float_of_int quantity)) 20
           in fmul risk_amt (rr d))
      | LOSS \<Rightarrow>
          (let loss = fmul (fmul \<bar>fsub fill stop\<bar> (float_of_int quantity)) 20
           in - loss))"

definition execute_order ::
  "PaperExchange \<Rightarrow> draws \<Rightarrow> string \<Rightarrow> string \<Rightarrow> int \<Rightarrow> real \<Rightarrow> real \<Rightarrow> string
     \<Rightarrow> trade_record \<times> PaperExchange" where
  "execute_order self d symbol action quantity price stop reasoning =
     (let fill = fill_price d action price;
          net = fsub (profit d fill stop quantity) (commission quantity);
          self1 = self\<lparr>balance := fadd (balance self) net\<rparr>;
          self2 = self1\<lparr>pnl := fadd (pnl self1) net\<rparr>;
          trade = \<lparr>tr_time = now d, tr_symbol = symbol, tr_action = action,
                   tr_price = py_round fill 2, tr_pnl = py_round net 2,
                   tr_result = outcome d, tr_reasoning = reasoning\<rparr>
      in (trade, self2\<lparr>history := history self2 @ [trade]\<rparr>))"

record stats =
  st_balance :: real
  st_pnl :: real
  st_trades_count :: nat
  st_win_rate :: real
  st_history :: "trade_record list"

text \<open>
  \<^verbatim>\<open>wins / total\<close> divides two ints (the correctly rounded quotient) and is evaluated only
  under \<^verbatim>\<open>total > 0\<close>; \<^verbatim>\<open>self.history[-10:]\<close> is the last ten trades, all of them when
  there are fewer.
\<close>

definition get_stats :: "PaperExchange \<Rightarrow> stats" where
  "get_stats self =
     (let wins = length (filter (\<lambda>t. tr_result t = WIN) (history self));
          total = length (history self);
          win_rate = (if total > 0 then py_round (fmul (fl (real wins / real total)) 100) 1 else 0)
      in \<lparr>st_balance = py_round (balance self) 2,
          st_pnl = py_round (pnl self) 2,
          st_trades_count = total,
          st_win_rate = win_rate,
          st_history = drop (length (history self) - 10) (history self)\<rparr>)"

section \<open>risk\_manager.py\<close>

record RiskManager =
  exchange :: PaperExchange
  max_daily_loss :: int
  max_trades_daily :: int
  risk_per_trade_pct :: real
  trades_today :: int

definition RiskManager_init :: RiskManager where
  "RiskManager_init =
     \<lparr>exchange = PaperExchange_init, max_daily_loss = 1000, max_trades_daily = 5,
      risk_per_trade_pct = fl (5 / 1000), trades_today = 0\<rparr>"

definition can_trade :: "RiskManager \<Rightarrow> bool \<times> string" where
  "can_trade self =
     (let state = get_stats (exchange self)
      in if st_pnl state \<le> - of_int (max_daily_loss self) then (False, ''Daily Loss Limit Hit'')
         else if trades_today self \<ge> max_trades_daily self then (False, ''Max Trades Reached'')
         else (True, ''OK''))"

datatype tier = MINI | MICRO

record sizing =
  sz_type :: tier
  sz_symbol :: string
  sz_contracts :: int

definition calculate_position_size ::
  "RiskManager \<Rightarrow> real \<Rightarrow> real \<Rightarrow> string \<Rightarrow> py_error + sizing" where
  "calculate_position_size self entry_price stop_price instrument =
     (let state = get_stats (exchange self);
          risk_amount = fmul (st_balance state) (risk_per_trade_pct self);
          tick_val_mini = (if instrument = ''NQ'' then 20 else 50);
          tick_val_micro = (if instrument = ''NQ'' then 2 else 5);
          point_diff0 = \<bar>fsub entry_price stop_price\<bar>;
          point_diff = (if point_diff0 = 0 then 10 else point_diff0);
          risk_per_mini = fmul point_diff tick_val_mini
      in if risk_amount \<ge> risk_per_mini
         then (case fdiv risk_amount risk_per_mini of
                 Inl e \<Rightarrow> Inl e
               | Inr q \<Rightarrow>
                   (case py_int q of
                      Inl e \<Rightarrow> Inl e
                    | Inr n \<Rightarrow>
                        Inr \<lparr>sz_type = MINI, sz_symbol = instrument, sz_contracts = max 1 n\<rparr>))
         else (case fdiv risk_amount (fmul point_diff tick_val_micro) of
                 Inl e \<Rightarrow> Inl e
               | Inr q \<Rightarrow>
                   (case py_int q of
                      Inl e \<Rightarrow> Inl e
                    | Inr n \<Rightarrow>
                        Inr \<lparr>sz_type = MICRO, sz_symbol = ''M'' @ instrument,
                             sz_contracts = max 1 n\<rparr>)))"

definition execute_paper_trade ::
  "RiskManager \<Rightarrow> draws \<Rightarrow> string \<Rightarrow> string \<Rightarrow> real \<Rightarrow> real \<Rightarrow> string
     \<Rightarrow> py_error + ((trade_record \<times> sizing) \<times> RiskManager)" where
  "execute_paper_trade self d symbol action price stop reasoning =
     (case calculate_position_size self price stop ''NQ'' of
        Inl e \<Rightarrow> Inl e
      | Inr sz \<Rightarrow>
          (let (trade, ex) = execute_order (exchange self) d (sz_symbol sz) action
                               (sz_contracts sz) price stop reasoning;
               self1 = self\<lparr>exchange := ex\<rparr>
           in Inr ((trade, sz), self1\<lparr>trades_today := trades_today self1 + 1\<rparr>)))"

record status =
  gs_balance :: real
  gs_daily_pl :: real
  gs_daily_limit :: int
  gs_trades_today :: int
  gs_max_trades :: int
  gs_status :: string
  gs_win_rate :: real
  gs_trades_count :: nat
  gs_history :: "trade_record list"

definition get_status :: "RiskManager \<Rightarrow> status" where
  "get_status self =
     (let stats = get_stats (exchange self)
      in \<lparr>gs_balance = st_balance stats,
          gs_daily_pl = st_pnl stats,
          gs_daily_limit = max_daily_loss self,
          gs_trades_today = trades_today self,
          gs_max_trades = max_trades_daily self,
          gs_status = (if fst (can_trade self) then ''TRADING ACTIVE'' else ''TRADING HALTED''),
          gs_win_rate = st_win_rate stats,
          gs_trades_count = st_trades_count stats,
          gs_history = st_history stats\<rparr>)"

definition reset_account :: "RiskManager \<Rightarrow> RiskManager" where
  "reset_account self =
     (let self1 = self\<lparr>exchange := snd (reset (exchange self))\<rparr>
      in self1\<lparr>trades_today := 0\<rparr>)"

section \<open>Calls on the risk manager\<close>

text \<open>
  The engine holds one \<^verbatim>\<open>RiskManager\<close> for the life of the process and every endpoint
  calls a method on it. A call is one method invocation with its arguments; the last three
  constructors are the methods of the \<^verbatim>\<open>PaperExchange\<close> the manager owns, called on
  \<^verbatim>\<open>risk.exchange\<close> directly. The methods that only read return the state unchanged; a
  call that raises leaves the state as it was, since \<^verbatim>\<open>calculate_position_size\<close> runs
  before anything is written.
\<close>

datatype call =
    CanTrade
  | CalculatePositionSize real real string
  | ExecutePaperTrade draws string string real real string
  | GetStatus
  | ResetAccount
  | ExecuteOrder draws string string int real real string
  | GetStats
  | Reset

fun step :: "RiskManager \<Rightarrow> call \<Rightarrow> RiskManager" where
  "step self CanTrade = self"
| "step self (CalculatePositionSize entry_price stop_price instrument) = self"
| "step self (ExecutePaperTrade d symbol action price stop reasoning) =
     (case execute_paper_trade self d symbol action price stop reasoning of
        Inl e \<Rightarrow> self
      | Inr (r, self1) \<Rightarrow> self1)"
| "step self GetStatus = self"
| "step self ResetAccount = reset_account self"
| "step self (ExecuteOrder d symbol action quantity price stop reasoning) =
     self\<lparr>exchange := snd (execute_order (exchange self) d symbol action quantity price stop
                                reasoning)\<rparr>"
| "step self GetStats = self"
| "step self Reset = self\<lparr>exchange := snd (reset (exchange self))\<rparr>"

definition run :: "RiskManager \<Rightarrow> call list \<Rightarrow> RiskManager" where
  "run self cs = foldl step self cs"

text \<open>The calls that are methods of \<^verbatim>\<open>RiskManager\<close> itself.\<close>

fun risk_manager_call :: "call \<Rightarrow> bool" where
  "risk_manager_call (ExecuteOrder d symbol action quantity price stop reasoning) = False"
| "risk_manager_call GetStats = False"
| "risk_manager_call Reset = False"
| "risk_manager_call c = True"

fun is_execute_paper_trade :: "call \<Rightarrow> bool" where
  "is_execute_paper_trade (ExecutePaperTrade d symbol action price stop reasoning) = True"
| "is_execute_paper_trade c = False"

text \<open>\<open>returns self c\<close>: the call \<open>c\<close> made in the state \<open>self\<close> does not raise.\<close>

fun returns :: "RiskManager \<Rightarrow> call \<Rightarrow> bool" where
  "returns self (ExecutePaperTrade d symbol action price stop reasoning) =
     (case execute_paper_trade self d symbol action price stop reasoning of
        Inl e \<Rightarrow> False
      | Inr r \<Rightarrow> True)"
| "returns self (CalculatePositionSize entry_price stop_price instrument) =
     (case calculate_position_size self entry_price stop_price instrument of
        Inl e \<Rightarrow> False
      | Inr r \<Rightarrow> True)"
| "returns self c = True"

fun all_return :: "RiskManager \<Rightarrow> call list \<Rightarrow> bool" where
  "all_return self [] = True"
| "all_return self (c # cs) = (returns self c \<and> all_return (step self c) cs)"

text \<open>\<open>stays_within M self cs\<close>: after every call of \<open>cs\<close> both sums are at most \<open>M\<close> in size.\<close>

fun stays_within :: "real \<Rightarrow> RiskManager \<Rightarrow> call list \<Rightarrow> bool" where
  "stays_within M self [] = True"
| "stays_within M self (c # cs) =
     (\<bar>balance (exchange (step self c))\<bar> \<le> M \<and> \<bar>pnl (exchange (step self c))\<bar> \<le> M \<and>
      stays_within M (step self c) cs)"

text \<open>
  The sizing rule in the words of the specification, as a function of the risk budget:
  the distance is \<open>|entry - stop|\<close>, 10 when the prices are equal; the standard tier when
  the budget covers one standard contract, the micro tier with the prefixed symbol
  otherwise; the count is the floor of the quotient, at least 1. The per-point values are
  those of the instrument class (20 and 2 for NQ, 50 and 5 otherwise), and the products and
  quotients are the program's float operations.
\<close>

definition sizing_rule :: "real \<Rightarrow> real \<Rightarrow> real \<Rightarrow> string \<Rightarrow> sizing" where
  "sizing_rule risk_budget entry_price stop_price instrument =
     (let standard_value = (if instrument = ''NQ'' then 20 else 50);
          micro_value = (if instrument = ''NQ'' then 2 else 5);
          point_distance = (if entry_price = stop_price then 10
                            else \<bar>fsub entry_price stop_price\<bar>)
      in if risk_budget \<ge> fmul point_distance standard_value
         then \<lparr>sz_type = MINI, sz_symbol = instrument,
               sz_contracts =
                 max 1 \<lfloor>fl (risk_budget / fmul point_distance standard_value)\<rfloor>\<rparr>
         else \<lparr>sz_type = MICRO, sz_symbol = ''M'' @ instrument,
               sz_contracts =
                 max 1 \<lfloor>fl (risk_budget / fmul point_distance micro_value)\<rfloor>\<rparr>)"

text \<open>
  The float quotient of the tier that the rule chooses, the number whose integer part is
  the contract count.
\<close>

definition tier_quotient :: "real \<Rightarrow> real \<Rightarrow> real \<Rightarrow> string \<Rightarrow> real" where
  "tier_quotient risk_budget entry_price stop_price instrument =
     (let standard_value = (if instrument = ''NQ'' then 20 else 50);
          micro_value = (if instrument = ''NQ'' then 2 else 5);
          point_distance = (if entry_price = stop_price then 10
                            else \<bar>fsub entry_price stop_price\<bar>)
      in if risk_budget \<ge> fmul point_distance standard_value
         then fl (risk_budget / fmul point_distance standard_value)
         else fl (risk_budget / fmul point_distance micro_value))"

text \<open>The risk budget of a state: 0.5% of the balance that \<^verbatim>\<open>get_stats\<close> reports.\<close>

definition risk_budget_of :: "RiskManager \<Rightarrow> real" where
  "risk_budget_of self = fmul (py_round (balance (exchange self)) 2) (risk_per_trade_pct self)"

subsection \<open>Concrete runs\<close>

text \<open>
  Two winning trades as the \<^verbatim>\<open>/execute\<close> endpoint places them: a BUY at 20000 with the
  stop 20 points below, half a point of slippage and a reward multiple of 1.51.
\<close>

definition win_151 :: draws where
  "win_151 = \<lparr>slippage = 1 / 2, outcome = WIN, rr = fl (151 / 100), now = ''2024-01-02 10:15''\<rparr>"

definition two_wins :: "call list" where
  "two_wins =
     [ExecutePaperTrade win_151 ''NQ=F'' ''BUY'' 20000 19980 ''Manual'',
      ExecutePaperTrade win_151 ''NQ=F'' ''BUY'' 20000 19980 ''Manual'']"

text \<open>Two losing trades that leave the cumulative P&L just above -1000.\<close>

definition loss_0 :: draws where
  "loss_0 = \<lparr>slippage = 0, outcome = LOSS, rr = 2, now = ''2024-01-02 10:15''\<rparr>"

definition two_losses :: "call list" where
  "two_losses =
     [ExecutePaperTrade loss_0 ''NQ=F'' ''BUY'' 125 100 ''Manual'',
      ExecutePaperTrade loss_0 ''NQ=F'' ''BUY'' (fl (1247998 / 10000)) 100 ''Manual'']"

text \<open>One winning trade that leaves the balance just below 100000.\<close>

definition win_small :: draws where
  "win_small =
     \<lparr>slippage = 0, outcome = WIN, rr = fl (1999992 / 1000000), now = ''2024-01-02 10:15''\<rparr>"

definition one_small_win :: "call list" where
  "one_small_win = [ExecutePaperTrade win_small ''NQ=F'' ''BUY'' (fl (10005 / 100)) 100 ''Manual'']"

text \<open>A winning draw with a quarter point of slippage and a reward multiple of 1.5625.\<close>

definition win_quarter :: draws where
  "win_quarter = \<lparr>slippage = 1 / 4, outcome = WIN, rr = 25 / 16, now = ''2024-01-02 10:15''\<rparr>"

text \<open>An order placed on the exchange directly, past the risk manager.\<close>

definition direct_order :: call where
  "direct_order = ExecuteOrder win_quarter ''NQ'' ''BUY'' 1 100 100 ''Manual''"

text \<open>The smallest positive float, 5e-324.\<close>

definition smallest_float :: real where
  "smallest_float = 2 powi (- 1074)"

text \<open>A state with a given raw cumulative P&L and trade count.\<close>

definition with_pnl :: "real \<Rightarrow> int \<Rightarrow> RiskManager" where
  "with_pnl p n =
     RiskManager_init\<lparr>exchange := PaperExchange_init\<lparr>pnl := p\<rparr>, trades_today := n\<rparr>"

section \<open>Properties of the float operations\<close>

lemma round_half_even_floor_ceiling:
  "\<lfloor>z\<rfloor> \<le> round_half_even z \<and> round_half_even z \<le> \<lceil>z\<rceil>"
proof -
  have "z - of_int \<lfloor>z\<rfloor> > 0 \<Longrightarrow> \<lfloor>z\<rfloor> + 1 \<le> \<lceil>z\<rceil>"
    by linarith
  moreover have "z - of_int \<lfloor>z\<rfloor> \<ge> 0" by linarith
  ultimately show ?thesis
    by (auto simp: round_half_even_def Let_def)
qed

lemma round_half_even_error: "\<bar>of_int (round_half_even z) - z\<bar> \<le> 1 / 2"
proof -
  have "z - of_int \<lfloor>z\<rfloor> \<ge> 0" "z - of_int \<lfloor>z\<rfloor> < 1" by linarith+
  then show ?thesis
    by (auto simp: round_half_even_def Let_def abs_le_iff)
qed

lemma round_half_even_ge: "of_int n \<le> z \<Longrightarrow> n \<le> round_half_even z"
  using round_half_even_floor_ceiling [of z] by (meson le_floor_iff order_trans)

lemma round_half_even_le: "z \<le> of_int n \<Longrightarrow> round_half_even z \<le> n"
  using round_half_even_floor_ceiling [of z] by (meson ceiling_le_iff order_trans)

lemma ilog2_bounds:
  assumes "0 < x"
  shows "2 powi ilog2 x \<le> x \<and> x < 2 powi (ilog2 x + 1)"
proof (cases "1 \<le> x")
  case True
  define n where "n = \<lfloor>x\<rfloor>"
  have n: "0 < n" "of_int n \<le> x" "x < of_int n + 1"
    using True unfolding n_def by linarith+
  have b: "2 ^ nat (bitlen n - 1) \<le> n" "n < 2 ^ nat (bitlen n)"
    using bitlen_bounds [OF n(1)] by auto
  have b1: "1 \<le> bitlen n" using n(1) bitlen_eq_zero_iff [of n] bitlen_nonneg [of n] by linarith
  have e: "ilog2 x = bitlen n - 1" using True by (simp add: ilog2_def n_def)
  have "(2::real) powi (bitlen n - 1) = 2 ^ nat (bitlen n - 1)"
    using b1 by (simp add: power_int_def)
  also have "\<dots> \<le> of_int n" using b(1) by (metis of_int_le_iff of_int_numeral of_int_power)
  finally have lo: "(2::real) powi (bitlen n - 1) \<le> x" using n(2) by linarith
  have "n + 1 \<le> 2 ^ nat (bitlen n)" using b(2) by linarith
  then have "of_int (n + 1) \<le> (2::real) ^ nat (bitlen n)"
    by (metis of_int_le_iff of_int_numeral of_int_power)
  moreover have "(2::real) powi (bitlen n - 1 + 1) = 2 ^ nat (bitlen n)"
    using b1 by (simp add: power_int_def)
  ultimately have hi: "x < 2 powi (bitlen n - 1 + 1)" using n(3) by simp
  show ?thesis using lo hi e by simp
next
  case False
  define y where "y = 1 / x"
  define m where "m = \<lceil>y\<rceil> - 1"
  have y: "1 < y" using False assms by (simp add: y_def)
  have m: "0 < m" "of_int m < y" "y \<le> of_int m + 1"
    using y unfolding m_def by linarith+
  have b: "2 ^ nat (bitlen m - 1) \<le> m" "m < 2 ^ nat (bitlen m)"
    using bitlen_bounds [OF m(1)] by auto
  have b1: "1 \<le> bitlen m" using m(1) bitlen_eq_zero_iff [of m] bitlen_nonneg [of m] by linarith
  have e: "ilog2 x = - bitlen m" using False by (simp add: ilog2_def m_def y_def)
  have "m + 1 \<le> 2 ^ nat (bitlen m)" using b(2) by linarith
  then have "of_int (m + 1) \<le> (2::real) ^ nat (bitlen m)"
    by (metis of_int_le_iff of_int_numeral of_int_power)
  then have yle: "y \<le> 2 ^ nat (bitlen m)" using m(3) by simp
  have "(2::real) ^ nat (bitlen m - 1) \<le> of_int m"
    using b(1) by (metis of_int_le_iff of_int_numeral of_int_power)
  then have ygt: "2 ^ nat (bitlen m - 1) < y" using m(2) by linarith
  have x: "x = 1 / y" using assms by (simp add: y_def)
  have p1: "(2::real) powi (- bitlen m) = 1 / 2 ^ nat (bitlen m)"
    using b1 by (simp add: power_int_def field_simps)
  have p2: "(2::real) powi (- bitlen m + 1) = 1 / 2 ^ nat (bitlen m - 1)"
  proof -
    have "- bitlen m + 1 = - (bitlen m - 1)" by simp
    then show ?thesis using b1 by (simp only: power_int_minus) (simp add: power_int_def field_simps)
  qed
  have lo: "2 powi (- bitlen m) \<le> x"
    unfolding p1 x using yle y by (simp add: frac_le)
  have hi: "x < 2 powi (- bitlen m + 1)"
    unfolding p2 x using ygt by (simp add: frac_less2)
  show ?thesis using lo hi e by simp
qed

lemma fl_zero: "fl 0 = 0"
  by (simp add: fl_def)

lemma fl_significand:
  assumes "x \<noteq> 0"
  defines "e \<equiv> ilog2 \<bar>x\<bar> - 52"
  shows "fl x = of_int (round_half_even (x * 2 powi (- e))) * 2 powi e"
    and "2 ^ 52 \<le> \<bar>round_half_even (x * 2 powi (- e))\<bar>"
proof -
  show "fl x = of_int (round_half_even (x * 2 powi (- e))) * 2 powi e"
    using assms by (simp add: fl_def Let_def)
  have pos: "0 < \<bar>x\<bar>" using assms by simp
  have lo: "2 powi ilog2 \<bar>x\<bar> \<le> \<bar>x\<bar>" using ilog2_bounds [OF pos] by simp
  have "(2::real) powi ilog2 \<bar>x\<bar> * 2 powi (- e) = 2 powi (ilog2 \<bar>x\<bar> + - e)"
    by (rule power_int_add [symmetric]) simp
  also have "\<dots> = 2 ^ 52" by (simp add: e_def)
  finally have eq: "(2::real) powi ilog2 \<bar>x\<bar> * 2 powi (- e) = 2 ^ 52" .
  have "(2::real) powi ilog2 \<bar>x\<bar> * 2 powi (- e) \<le> \<bar>x\<bar> * 2 powi (- e)"
    using lo by (simp add: mult_right_mono)
  then have z: "2 ^ 52 \<le> \<bar>x\<bar> * 2 powi (- e)" using eq by simp
  show "2 ^ 52 \<le> \<bar>round_half_even (x * 2 powi (- e))\<bar>"
  proof (cases "0 < x")
    case True
    then have "of_int (2 ^ 52) \<le> x * 2 powi (- e)" using z by simp
    then have "2 ^ 52 \<le> round_half_even (x * 2 powi (- e))" by (rule round_half_even_ge)
    then show ?thesis by simp
  next
    case False
    then have "x < 0" using assms by simp
    then have "x * 2 powi (- e) \<le> of_int (- (2 ^ 52))" using z by simp
    then have "round_half_even (x * 2 powi (- e)) \<le> - (2 ^ 52)" by (rule round_half_even_le)
    then show ?thesis by simp
  qed
qed

lemma fl_eq_0_iff: "fl x = 0 \<longleftrightarrow> x = 0"
proof
  assume h: "fl x = 0"
  show "x = 0"
  proof (rule ccontr)
    assume nz: "x \<noteq> 0"
    have "round_half_even (x * 2 powi (- (ilog2 \<bar>x\<bar> - 52))) \<noteq> 0"
      using fl_significand(2) [OF nz] by auto
    then show False using h fl_significand(1) [OF nz] by simp
  qed
qed (simp add: fl_zero)

lemma fl_error: "\<bar>fl x - x\<bar> \<le> \<bar>fl x\<bar> / 2 ^ 53"
proof (cases "x = 0")
  case True
  then show ?thesis by (simp add: fl_zero)
next
  case False
  define e where "e = ilog2 \<bar>x\<bar> - 52"
  define z where "z = x * 2 powi (- e)"
  define r where "r = round_half_even z"
  have f: "fl x = of_int r * 2 powi e" and big: "2 ^ 52 \<le> \<bar>r\<bar>"
    using fl_significand [OF False] by (simp_all add: e_def z_def r_def)
  have p: "(0::real) < 2 powi e" by simp
  have x: "x = z * 2 powi e"
    by (simp add: z_def power_int_minus field_simps)
  have "fl x - x = of_int r * 2 powi e - z * 2 powi e" by (simp only: f x [symmetric])
  then have "fl x - x = (of_int r - z) * 2 powi e" by (simp add: algebra_simps)
  then have "\<bar>fl x - x\<bar> = \<bar>of_int r - z\<bar> * 2 powi e" by (simp add: abs_mult)
  also have "\<dots> \<le> 1 / 2 * 2 powi e"
    using round_half_even_error [of z] p by (simp add: r_def mult_right_mono)
  finally have err: "\<bar>fl x - x\<bar> \<le> 2 powi e / 2" by simp
  have "(2::real) ^ 52 \<le> \<bar>of_int r\<bar>"
    using big by (metis of_int_abs of_int_le_iff of_int_numeral of_int_power)
  then have "2 ^ 52 * 2 powi e \<le> \<bar>real_of_int r\<bar> * 2 powi e"
    using p by (simp add: mult_right_mono)
  also have "\<dots> = \<bar>fl x\<bar>" by (simp add: f abs_mult)
  finally have "2 ^ 52 * 2 powi e \<le> \<bar>fl x\<bar>" .
  then have "2 powi e / 2 \<le> \<bar>fl x\<bar> / 2 ^ 53" by simp
  then show ?thesis using err by linarith
qed

lemma fsub_eq_0_iff: "fsub a b = 0 \<longleftrightarrow> a = b"
  by (simp add: fsub_def fl_eq_0_iff)

lemma fmul_eq_0_iff: "fmul a b = 0 \<longleftrightarrow> a = 0 \<or> b = 0"
  by (simp add: fmul_def fl_eq_0_iff)

lemma max_truncate: "max 1 (if 0 \<le> q then \<lfloor>q\<rfloor> else \<lceil>q\<rceil>) = max (1::int) \<lfloor>q\<rfloor>"
proof (cases "0 \<le> q")
  case True
  then show ?thesis by simp
next
  case False
  then have "\<lceil>q\<rceil> \<le> 0" "\<lfloor>q\<rfloor> \<le> 0" by (simp_all add: ceiling_le_iff floor_le_iff)
  then show ?thesis using False by simp
qed

lemma fl_abs_bounds: "\<bar>x\<bar> / 2 \<le> \<bar>fl x\<bar> \<and> \<bar>fl x\<bar> \<le> 2 * \<bar>x\<bar>"
proof -
  have "\<bar>fl x - x\<bar> \<le> \<bar>fl x\<bar> / 2 ^ 53" by (rule fl_error)
  moreover have "\<bar>fl x\<bar> / 2 ^ 53 \<le> \<bar>fl x\<bar> / 2"
    by (intro divide_left_mono) simp_all
  ultimately show ?thesis by linarith
qed

lemma round_half_even_of_int: "round_half_even (of_int n) = n"
  by (simp add: round_half_even_def)

lemma fl_exact:
  assumes "\<bar>m\<bar> < 2 ^ 53"
  shows "fl (of_int m * 2 powi e) = of_int m * 2 powi e"
proof (cases "m = 0")
  case True
  then show ?thesis by (simp add: fl_zero)
next
  case False
  define x :: real where "x = of_int m * 2 powi e"
  define k where "k = ilog2 \<bar>x\<bar> - 52"
  have nz: "x \<noteq> 0" using False by (simp add: x_def)
  have pos: "0 < \<bar>x\<bar>" using nz by simp
  have "real_of_int \<bar>m\<bar> < 2 ^ 53"
    using assms by (metis of_int_less_iff of_int_numeral of_int_power)
  then have "\<bar>real_of_int m\<bar> < 2 ^ 53" by simp
  then have a: "\<bar>real_of_int m\<bar> * 2 powi e < 2 ^ 53 * 2 powi e"
    by (intro mult_strict_right_mono) simp_all
  have b: "(2::real) ^ 53 * 2 powi e = 2 powi (53 + e)"
    by (simp add: power_int_add)
  have c: "\<bar>x\<bar> = \<bar>real_of_int m\<bar> * 2 powi e" by (simp add: x_def abs_mult)
  have up: "\<bar>x\<bar> < 2 powi (53 + e)" using a b c by linarith
  have "k \<le> e"
  proof (rule ccontr)
    assume "\<not> k \<le> e"
    then have "53 + e \<le> ilog2 \<bar>x\<bar>" by (simp add: k_def)
    then have "(2::real) powi (53 + e) \<le> 2 powi ilog2 \<bar>x\<bar>"
      by (intro power_int_increasing) simp_all
    then show False using ilog2_bounds [OF pos] up by linarith
  qed
  then obtain n where n: "e - k = int n" using nonneg_int_cases [of "e - k"] by auto
  have "(2::real) powi e * 2 powi (- k) = 2 powi (e + - k)"
    by (rule power_int_add [symmetric]) simp
  also have "\<dots> = 2 ^ n" using n by (simp add: power_int_def)
  finally have pw: "(2::real) powi e * 2 powi (- k) = 2 ^ n" .
  have "x * 2 powi (- k) = of_int m * (2 powi e * 2 powi (- k))" by (simp add: x_def)
  also have "\<dots> = of_int (m * 2 ^ n)" by (simp add: pw)
  finally have z: "x * 2 powi (- k) = of_int (m * 2 ^ n)" .
  have "fl x = of_int (round_half_even (x * 2 powi (- k))) * 2 powi k"
    using fl_significand(1) [OF nz] by (simp add: k_def)
  also have "\<dots> = of_int (m * 2 ^ n) * 2 powi k"
    by (simp only: z round_half_even_of_int)
  also have "\<dots> = of_int m * (2 ^ n * 2 powi k)" by simp
  also have "(2::real) ^ n * 2 powi k = 2 powi (e + - k) * 2 powi k"
    using n by (simp add: power_int_def)
  also have "\<dots> = 2 powi e"
    by (subst power_int_add [symmetric]) simp_all
  finally show ?thesis by (simp add: x_def)
qed

lemma quotient_in_range:
  assumes "2 powi (- 500) \<le> pd" and "2 \<le> t" and "\<bar>rb\<bar> \<le> 2 ^ 500"
  shows "\<bar>fl (rb / fmul pd t)\<bar> < 2 ^ 1024"
proof -
  have p: "(2::real) powi (- 500) = 1 / 2 ^ 500" by (simp add: power_int_minus field_simps)
  have pd: "1 / 2 ^ 500 \<le> pd" using assms(1) unfolding p .
  have pd0: "0 < pd" using pd by (smt (verit) divide_pos_pos zero_less_power zero_less_one)
  have "pd * 2 \<le> pd * t" using assms(2) pd0 by (intro mult_left_mono) simp_all
  then have "pd \<le> \<bar>pd * t\<bar> / 2" by simp
  also have "\<dots> \<le> \<bar>fmul pd t\<bar>" unfolding fmul_def using fl_abs_bounds [of "pd * t"] by simp
  finally have D: "1 / 2 ^ 500 \<le> \<bar>fmul pd t\<bar>" using pd by linarith
  have "\<bar>rb / fmul pd t\<bar> = \<bar>rb\<bar> / \<bar>fmul pd t\<bar>" by simp
  also have "\<dots> \<le> 2 ^ 500 / (1 / 2 ^ 500)"
    using assms(3) D by (intro frac_le) simp_all
  also have "\<dots> = 2 ^ 500 * 2 ^ 500" by simp
  finally have q: "\<bar>rb / fmul pd t\<bar> \<le> 2 ^ 500 * 2 ^ 500" .
  have "\<bar>fl (rb / fmul pd t)\<bar> \<le> 2 * \<bar>rb / fmul pd t\<bar>"
    using fl_abs_bounds [of "rb / fmul pd t"] by simp
  also have "\<dots> \<le> 2 * (2 ^ 500 * 2 ^ 500)" using q by simp
  also have "\<dots> < (2::real) ^ 1024" by simp
  finally show ?thesis .
qed

lemma ilog2_ge:
  assumes "2 powi k \<le> x"
  shows "k \<le> ilog2 x"
proof (rule ccontr)
  assume "\<not> k \<le> ilog2 x"
  then have "ilog2 x + 1 \<le> k" by simp
  then have "(2::real) powi (ilog2 x + 1) \<le> 2 powi k"
    by (intro power_int_increasing) simp_all
  moreover have "(0::real) < 2 powi k" by simp
  then have "0 < x" using assms by linarith
  ultimately show False using ilog2_bounds [of x] assms by linarith
qed

lemma py_round_0: "py_round 0 n = 0"
  by (simp add: py_round_def round_half_even_def fl_zero)

lemma fl_le_minus_1000:
  assumes "y \<le> - 1000"
  shows "fl y \<le> - 1000"
proof -
  define e where "e = ilog2 \<bar>y\<bar> - 52"
  define r where "r = round_half_even (y * 2 powi (- e))"
  have nz: "y \<noteq> 0" using assms by simp
  have f: "fl y = of_int r * 2 powi e" and big: "2 ^ 52 \<le> \<bar>r\<bar>"
    using fl_significand [OF nz] by (simp_all add: e_def r_def)
  have "(2::real) powi 9 = 512" by simp
  then have "(2::real) powi 9 \<le> \<bar>y\<bar>" using assms by linarith
  then have k: "9 \<le> ilog2 \<bar>y\<bar>" by (rule ilog2_ge)
  have pos: "(0::real) < 2 powi (- e)" by simp
  have "y * 2 powi (- e) \<le> 0 * 2 powi (- e)"
    using assms pos by (intro mult_right_mono) linarith+
  then have "y * 2 powi (- e) \<le> of_int 0" by simp
  then have "r \<le> 0" unfolding r_def by (rule round_half_even_le)
  then have rneg: "r \<le> - (2 ^ 52)" using big by linarith
  show ?thesis
  proof (cases "ilog2 \<bar>y\<bar> = 9")
    case True
    then have e: "e = - 43" by (simp add: e_def)
    have p1: "(2::real) powi (- e) = 8796093022208" unfolding e by simp
    have p2: "(2::real) powi e = 1 / 8796093022208" unfolding e by (simp add: power_int_minus)
    have "y * 8796093022208 \<le> - 1000 * 8796093022208"
      using assms by linarith
    then have "y * 2 powi (- e) \<le> of_int (- 8796093022208000)" unfolding p1 by simp
    then have "r \<le> - 8796093022208000" unfolding r_def by (rule round_half_even_le)
    then have "real_of_int r \<le> - 8796093022208000" by linarith
    then have "real_of_int r * (1 / 8796093022208) \<le> - 1000" by linarith
    then show ?thesis unfolding f p2 .
  next
    case False
    then have "- 42 \<le> e" using k by (simp add: e_def)
    then have "(2::real) powi (- 42) \<le> 2 powi e"
      by (intro power_int_increasing) simp_all
    moreover have "(2::real) powi (- 42) = 1 / 4398046511104" by (simp add: power_int_minus)
    ultimately have p: "1 / 4398046511104 \<le> (2::real) powi e" by simp
    have "r \<le> - 4503599627370496" using rneg by simp
    then have rr: "real_of_int r \<le> - 4503599627370496" by linarith
    have "real_of_int r * 2 powi e \<le> (- 4503599627370496) * 2 powi e"
      using rr by (intro mult_right_mono) simp_all
    also have "\<dots> \<le> (- 4503599627370496) * (1 / 4398046511104)"
      using p by (intro mult_left_mono_neg) simp_all
    also have "\<dots> \<le> - 1000" by simp
    finally show ?thesis unfolding f .
  qed
qed

lemma py_round_le_minus_1000:
  assumes "x \<le> - 1000"
  shows "py_round x 2 \<le> - 1000"
proof -
  have "x * 100 \<le> of_int (- 100000)" using assms by simp
  then have "round_half_even (x * 100) \<le> - 100000" by (rule round_half_even_le)
  then have "real_of_int (round_half_even (x * 100)) \<le> - 100000" by linarith
  then have "real_of_int (round_half_even (x * 100)) / 100 \<le> - 1000" by simp
  then have "fl (real_of_int (round_half_even (x * 100)) / 100) \<le> - 1000"
    by (rule fl_le_minus_1000)
  then show ?thesis by (simp add: py_round_def)
qed

section \<open>Properties of the program\<close>

lemma calculate_position_size_rule:
  "calculate_position_size self entry_price stop_price instrument =
     (if 2 ^ 1024 \<le> \<bar>tier_quotient (risk_budget_of self) entry_price stop_price instrument\<bar>
      then Inl OverflowError
      else Inr (sizing_rule (risk_budget_of self) entry_price stop_price instrument))"
proof (cases "entry_price = stop_price")
  case True
  then show ?thesis
    by (simp add: calculate_position_size_def sizing_rule_def tier_quotient_def
        risk_budget_of_def get_stats_def Let_def fdiv_def py_int_def fsub_eq_0_iff
        fmul_eq_0_iff max_truncate fsub_def fl_zero)
next
  case False
  then show ?thesis
    by (simp add: calculate_position_size_def sizing_rule_def tier_quotient_def
        risk_budget_of_def get_stats_def Let_def fdiv_def py_int_def fsub_eq_0_iff
        fmul_eq_0_iff max_truncate)
qed

lemma sizing_rule_contracts: "1 \<le> sz_contracts (sizing_rule b e s i)"
  by (simp add: sizing_rule_def Let_def)

lemma sizing_rule_NQ:
  "(sz_type (sizing_rule b e s ''NQ'') = MINI \<and> sz_symbol (sizing_rule b e s ''NQ'') = ''NQ'') \<or>
   (sz_type (sizing_rule b e s ''NQ'') = MICRO \<and> sz_symbol (sizing_rule b e s ''NQ'') = ''MNQ'')"
  by (simp add: sizing_rule_def Let_def)

lemma can_trade_unfold:
  "can_trade self =
     (if py_round (pnl (exchange self)) 2 \<le> - of_int (max_daily_loss self)
      then (False, ''Daily Loss Limit Hit'')
      else if max_trades_daily self \<le> trades_today self then (False, ''Max Trades Reached'')
      else (True, ''OK''))"
  by (simp add: can_trade_def get_stats_def Let_def)

lemma execute_order_fst:
  "fst (execute_order self d symbol action quantity price stop reasoning) =
     \<lparr>tr_time = now d, tr_symbol = symbol, tr_action = action,
      tr_price = py_round (fill_price d action price) 2,
      tr_pnl = py_round (fsub (profit d (fill_price d action price) stop quantity)
                           (commission quantity)) 2,
      tr_result = outcome d, tr_reasoning = reasoning\<rparr>"
  by (simp add: execute_order_def Let_def)

lemma execute_order_snd:
  "snd (execute_order self d symbol action quantity price stop reasoning) =
     \<lparr>balance = fadd (balance self)
                  (fsub (profit d (fill_price d action price) stop quantity) (commission quantity)),
      pnl = fadd (pnl self)
              (fsub (profit d (fill_price d action price) stop quantity) (commission quantity)),
      history = history self @
                  [fst (execute_order self d symbol action quantity price stop reasoning)]\<rparr>"
  by (simp add: execute_order_def Let_def)

lemma execute_paper_trade_rule:
  "execute_paper_trade self d symbol action price stop reasoning =
     (if 2 ^ 1024 \<le> \<bar>tier_quotient (risk_budget_of self) price stop ''NQ''\<bar>
      then Inl OverflowError
      else Inr ((fst (execute_order (exchange self) d
                        (sz_symbol (sizing_rule (risk_budget_of self) price stop ''NQ'')) action
                        (sz_contracts (sizing_rule (risk_budget_of self) price stop ''NQ''))
                        price stop reasoning),
                 sizing_rule (risk_budget_of self) price stop ''NQ''),
                self\<lparr>exchange :=
                        snd (execute_order (exchange self) d
                               (sz_symbol (sizing_rule (risk_budget_of self) price stop ''NQ''))
                               action
                               (sz_contracts (sizing_rule (risk_budget_of self) price stop ''NQ''))
                               price stop reasoning),
                      trades_today := trades_today self + 1\<rparr>))"
  by (simp add: execute_paper_trade_def calculate_position_size_rule Let_def split_def)

lemma step_execute_paper_trade:
  "step self (ExecutePaperTrade d symbol action price stop reasoning) =
     (if 2 ^ 1024 \<le> \<bar>tier_quotient (risk_budget_of self) price stop ''NQ''\<bar> then self
      else self\<lparr>exchange :=
                  snd (execute_order (exchange self) d
                         (sz_symbol (sizing_rule (risk_budget_of self) price stop ''NQ'')) action
                         (sz_contracts (sizing_rule (risk_budget_of self) price stop ''NQ''))
                         price stop reasoning),
                trades_today := trades_today self + 1\<rparr>)"
  by (simp add: execute_paper_trade_rule)

lemma returns_execute_paper_trade:
  "returns self (ExecutePaperTrade d symbol action price stop reasoning) =
     (\<bar>tier_quotient (risk_budget_of self) price stop ''NQ''\<bar> < 2 ^ 1024)"
  by (simp add: execute_paper_trade_rule not_le)

declare returns.simps(1) [simp del]

declare step.simps(3) [simp del]

lemma step_constants:
  "max_daily_loss (step self c) = max_daily_loss self \<and>
   max_trades_daily (step self c) = max_trades_daily self \<and>
   risk_per_trade_pct (step self c) = risk_per_trade_pct self"
  by (cases c) (simp_all add: step_execute_paper_trade reset_account_def Let_def)

lemma run_constants:
  "max_daily_loss (run self cs) = max_daily_loss self \<and>
   max_trades_daily (run self cs) = max_trades_daily self \<and>
   risk_per_trade_pct (run self cs) = risk_per_trade_pct self"
  unfolding run_def by (induction cs arbitrary: self) (simp_all add: step_constants)

lemma run_snoc: "run self (cs @ [c]) = step (run self cs) c"
  by (simp add: run_def)

lemma run_Cons: "run self (c # cs) = run (step self c) cs"
  by (simp add: run_def)

lemma run_Nil: "run self [] = self"
  by (simp add: run_def)

text \<open>
  Claim C7. After \<^verbatim>\<open>reset_account()\<close>, whatever the state before, the balance is
  100000.00, the cumulative P&L is 0, the trade history is empty and \<^verbatim>\<open>trades_today\<close> is
  0. The call is one step of the state machine, so its caller sees only this final state.
\<close>
theorem reset_postcondition:
  "balance (exchange (reset_account self)) = 100000 \<and>
   pnl (exchange (reset_account self)) = 0 \<and>
   history (exchange (reset_account self)) = [] \<and>
   trades_today (reset_account self) = 0 \<and>
   step self ResetAccount = reset_account self \<and>
   fst (reset (exchange self)) = True"
  by (simp add: reset_account_def reset_def Let_def)

lemma step_count:
  "risk_manager_call c \<Longrightarrow>
   trades_today self = int (length (history (exchange self))) \<Longrightarrow>
   trades_today (step self c) = int (length (history (exchange (step self c))))"
  by (cases c) (simp_all add: step_execute_paper_trade execute_order_snd reset_account_def
      reset_def Let_def)

lemma run_count:
  "\<forall>c\<in>set cs. risk_manager_call c \<Longrightarrow>
   trades_today self = int (length (history (exchange self))) \<Longrightarrow>
   trades_today (run self cs) = int (length (history (exchange (run self cs))))"
  by (induction cs arbitrary: self) (simp_all add: run_Nil run_Cons step_count)

lemma run_executions:
  "\<forall>c\<in>set cs. is_execute_paper_trade c \<Longrightarrow> all_return self cs \<Longrightarrow>
   length (history (exchange (run self cs))) = length (history (exchange self)) + length cs \<and>
   trades_today (run self cs) = trades_today self + int (length cs)"
proof (induction cs arbitrary: self)
  case Nil
  then show ?case by (simp add: run_Nil)
next
  case (Cons c cs)
  obtain d symbol action price stop reasoning
    where c: "c = ExecutePaperTrade d symbol action price stop reasoning"
    using Cons.prems(1) by (cases c) simp_all
  have r: "\<bar>tier_quotient (risk_budget_of self) price stop ''NQ''\<bar> < 2 ^ 1024"
    using Cons.prems(2) by (simp add: c returns_execute_paper_trade)
  have "\<forall>c\<in>set cs. is_execute_paper_trade c" "all_return (step self c) cs"
    using Cons.prems by simp_all
  from Cons.IH [OF this] r show ?case
    by (simp add: run_Cons c step_execute_paper_trade execute_order_snd)
qed

text \<open>
  Claim C3, as amended. Started from a fresh or reset manager, every sequence of calls of
  the manager's own methods (\<^verbatim>\<open>can_trade\<close>, \<^verbatim>\<open>calculate_position_size\<close>,
  \<^verbatim>\<open>execute_paper_trade\<close>, \<^verbatim>\<open>get_status\<close>, \<^verbatim>\<open>reset_account\<close>) keeps
  \<^verbatim>\<open>trades_today\<close> equal to the length of the trade history; after \<open>N\<close> calls of
  \<^verbatim>\<open>execute_paper_trade\<close> that all return, the history has \<open>N\<close> records and
  \<^verbatim>\<open>trades_today\<close> is \<open>N\<close>; an execution that returns appends one trade and adds one to
  the count, one that raises changes nothing; the other methods, \<^verbatim>\<open>reset_account\<close> apart,
  change neither.
\<close>

theorem trade_count_history_agreement:
  assumes "self = RiskManager_init \<or> self = reset_account self0"
    and "\<forall>c\<in>set cs. risk_manager_call c"
  shows "trades_today (run self cs) = int (length (history (exchange (run self cs)))) \<and>
         ((\<forall>c\<in>set cs. is_execute_paper_trade c) \<and> all_return self cs \<longrightarrow>
            length (history (exchange (run self cs))) = length cs \<and>
            trades_today (run self cs) = int (length cs)) \<and>
         (\<forall>c. is_execute_paper_trade c \<and> returns (run self cs) c \<longrightarrow>
            trades_today (step (run self cs) c) = trades_today (run self cs) + 1 \<and>
            length (history (exchange (step (run self cs) c))) =
              length (history (exchange (run self cs))) + 1) \<and>
         (\<forall>c. risk_manager_call c \<and> c \<noteq> ResetAccount \<and>
              (is_execute_paper_trade c \<longrightarrow> \<not> returns (run self cs) c) \<longrightarrow>
            step (run self cs) c = run self cs)"
proof -
  have start: "trades_today self = 0 \<and> history (exchange self) = []"
    using assms(1)
    by (auto simp: RiskManager_init_def PaperExchange_init_def reset_account_def reset_def Let_def)
  then have inv: "trades_today self = int (length (history (exchange self)))" by simp
  have 1: "trades_today (run self cs) = int (length (history (exchange (run self cs))))"
    using run_count [OF assms(2) inv] .
  have 2: "(\<forall>c\<in>set cs. is_execute_paper_trade c) \<and> all_return self cs \<longrightarrow>
            length (history (exchange (run self cs))) = length cs \<and>
            trades_today (run self cs) = int (length cs)"
    using run_executions [of cs self] start by simp
  have 3: "is_execute_paper_trade c \<and> returns s c \<longrightarrow>
            trades_today (step s c) = trades_today s + 1 \<and>
            length (history (exchange (step s c))) = length (history (exchange s)) + 1" for c s
    by (cases c)
      (simp_all add: returns_execute_paper_trade step_execute_paper_trade execute_order_snd)
  have 4: "risk_manager_call c \<and> c \<noteq> ResetAccount \<and>
            (is_execute_paper_trade c \<longrightarrow> \<not> returns s c) \<longrightarrow> step s c = s" for c s
    by (cases c) (simp_all add: returns_execute_paper_trade step_execute_paper_trade)
  show ?thesis using 1 2 3 4 by blast
qed

text \<open>
  Claim C2, as amended. With the limits 1000 and 5 of the constructor, \<^verbatim>\<open>can_trade()\<close>
  returns \<open>(False, "Daily Loss Limit Hit")\<close> whenever the cumulative P&L rounded to two
  decimals is at most -1000, whatever \<^verbatim>\<open>trades_today\<close> is, and so whenever the raw P&L is
  at most -1000; otherwise \<open>(False, "Max Trades Reached")\<close> whenever \<^verbatim>\<open>trades_today\<close>
  is at least 5, in particular at 5 trades and a P&L of 0; otherwise \<open>(True, "OK")\<close>. The
  rejection is a returned pair: \<open>can_trade\<close> has no error result.
\<close>
theorem can_trade_decision:
  assumes "max_daily_loss self = 1000" and "max_trades_daily self = 5"
  shows "can_trade self =
           (if py_round (pnl (exchange self)) 2 \<le> - 1000 then (False, ''Daily Loss Limit Hit'')
            else if 5 \<le> trades_today self then (False, ''Max Trades Reached'')
            else (True, ''OK'')) \<and>
         (pnl (exchange self) \<le> - 1000 \<longrightarrow> can_trade self = (False, ''Daily Loss Limit Hit'')) \<and>
         (pnl (exchange self) = 0 \<and> trades_today self = 5 \<longrightarrow>
            can_trade self = (False, ''Max Trades Reached''))"
  using assms py_round_le_minus_1000 [of "pnl (exchange self)"]
  by (simp add: can_trade_unfold py_round_0)

text \<open>
  Claim C5, as amended. For finite prices \<^verbatim>\<open>calculate_position_size\<close> never raises
  \<^verbatim>\<open>ZeroDivisionError\<close>: when the two prices are equal the distance used is 10 points, and
  no divisor is zero. Every contract count it returns is at least 1, also at equal prices
  and at arbitrarily small balances. It returns unless the float quotient of the risk
  budget by the risk of one contract overflows, where \<^verbatim>\<open>int\<close> raises \<^verbatim>\<open>OverflowError\<close>;
  it does return whenever the distance is zero or at least \<open>2 ^ -500\<close> and the risk budget is
  at most \<open>2 ^ 500\<close> in size.
\<close>

theorem sizing_never_divides_by_zero:
  "calculate_position_size self entry_price stop_price instrument \<noteq> Inl ZeroDivisionError \<and>
   (case calculate_position_size self entry_price stop_price instrument of
      Inl e \<Rightarrow>
        e = OverflowError \<and>
        2 ^ 1024 \<le> \<bar>tier_quotient (risk_budget_of self) entry_price stop_price instrument\<bar>
    | Inr sz \<Rightarrow> 1 \<le> sz_contracts sz) \<and>
   tier_quotient (risk_budget_of self) entry_price entry_price instrument =
     (if risk_budget_of self \<ge> fmul 10 (if instrument = ''NQ'' then 20 else 50)
      then fl (risk_budget_of self / fmul 10 (if instrument = ''NQ'' then 20 else 50))
      else fl (risk_budget_of self / fmul 10 (if instrument = ''NQ'' then 2 else 5))) \<and>
   fmul 10 20 \<noteq> 0 \<and> fmul 10 50 \<noteq> 0 \<and> fmul 10 2 \<noteq> 0 \<and> fmul 10 5 \<noteq> 0 \<and>
   ((entry_price = stop_price \<or> 2 powi (- 500) \<le> \<bar>fsub entry_price stop_price\<bar>) \<and>
    \<bar>risk_budget_of self\<bar> \<le> 2 ^ 500 \<longrightarrow>
      (\<exists>sz. calculate_position_size self entry_price stop_price instrument = Inr sz \<and>
            1 \<le> sz_contracts sz))"
proof -
  have 1: "calculate_position_size self entry_price stop_price instrument \<noteq> Inl ZeroDivisionError"
    by (simp add: calculate_position_size_rule)
  have 2: "(case calculate_position_size self entry_price stop_price instrument of
      Inl e \<Rightarrow>
        e = OverflowError \<and>
        2 ^ 1024 \<le> \<bar>tier_quotient (risk_budget_of self) entry_price stop_price instrument\<bar>
    | Inr sz \<Rightarrow> 1 \<le> sz_contracts sz)"
    by (simp add: calculate_position_size_rule sizing_rule_contracts)
  have 3: "tier_quotient (risk_budget_of self) entry_price entry_price instrument =
     (if risk_budget_of self \<ge> fmul 10 (if instrument = ''NQ'' then 20 else 50)
      then fl (risk_budget_of self / fmul 10 (if instrument = ''NQ'' then 20 else 50))
      else fl (risk_budget_of self / fmul 10 (if instrument = ''NQ'' then 2 else 5)))"
    by (simp add: tier_quotient_def Let_def)
  have 4: "fmul 10 20 \<noteq> 0 \<and> fmul 10 50 \<noteq> 0 \<and> fmul 10 2 \<noteq> 0 \<and> fmul 10 5 \<noteq> 0"
    by (simp add: fmul_eq_0_iff)
  have 5: "\<exists>sz. calculate_position_size self entry_price stop_price instrument = Inr sz \<and>
            1 \<le> sz_contracts sz"
    if d: "entry_price = stop_price \<or> 2 powi (- 500) \<le> \<bar>fsub entry_price stop_price\<bar>"
      and b: "\<bar>risk_budget_of self\<bar> \<le> 2 ^ 500"
  proof -
    define pd where
      "pd = (if entry_price = stop_price then 10 else \<bar>fsub entry_price stop_price\<bar>)"
    have "(2::real) powi (- 500) \<le> 2 powi 0" by (intro power_int_increasing) simp_all
    then have "(2::real) powi (- 500) \<le> 10" by simp
    then have pd: "2 powi (- 500) \<le> pd" using d by (auto simp: pd_def)
    have q: "\<bar>fl (risk_budget_of self / fmul pd t)\<bar> < 2 ^ 1024" if "2 \<le> t" for t
      using quotient_in_range [OF pd that b] .
    have "\<bar>tier_quotient (risk_budget_of self) entry_price stop_price instrument\<bar> < 2 ^ 1024"
      using q [of 20] q [of 50] q [of 2] q [of 5]
      by (simp add: tier_quotient_def Let_def pd_def)
    then show ?thesis
      by (simp add: calculate_position_size_rule sizing_rule_contracts)
  qed
  show ?thesis using 1 2 3 4 5 by blast
qed

text \<open>
  Claim C8. \<^verbatim>\<open>execute_paper_trade\<close> does not depend on its symbol argument: the position is
  sized for the instrument \<open>"NQ"\<close>, and the symbol on the recorded trade is the one of the
  sizing decision, \<open>"NQ"\<close> in the MINI tier and \<open>"MNQ"\<close> in the MICRO tier. The call returns
  such a trade exactly when the quotient of the sizing is in the float range; otherwise it
  raises what the sizing for \<open>"NQ"\<close> raises.
\<close>

theorem symbol_argument_ignored:
  "execute_paper_trade self d symbol action price stop reasoning =
     execute_paper_trade self d symbol' action price stop reasoning \<and>
   (\<bar>tier_quotient (risk_budget_of self) price stop ''NQ''\<bar> < 2 ^ 1024) =
     (\<exists>trade sz self1.
        execute_paper_trade self d symbol action price stop reasoning = Inr ((trade, sz), self1) \<and>
        calculate_position_size self price stop ''NQ'' = Inr sz \<and>
        tr_symbol trade = sz_symbol sz \<and>
        last (history (exchange self1)) = trade \<and>
        ((sz_type sz = MINI \<and> tr_symbol trade = ''NQ'') \<or>
         (sz_type sz = MICRO \<and> tr_symbol trade = ''MNQ''))) \<and>
   (case execute_paper_trade self d symbol action price stop reasoning of
      Inl e \<Rightarrow> calculate_position_size self price stop ''NQ'' = Inl e
    | Inr r \<Rightarrow>
        calculate_position_size self price stop ''NQ'' = Inr (snd (fst r)) \<and>
        tr_symbol (fst (fst r)) = sz_symbol (snd (fst r)) \<and>
        last (history (exchange (snd r))) = fst (fst r) \<and>
        ((sz_type (snd (fst r)) = MINI \<and> tr_symbol (fst (fst r)) = ''NQ'') \<or>
         (sz_type (snd (fst r)) = MICRO \<and> tr_symbol (fst (fst r)) = ''MNQ'')))"
  using sizing_rule_NQ [of "risk_budget_of self" price stop]
  by (simp add: execute_paper_trade_rule calculate_position_size_rule execute_order_fst
      execute_order_snd not_le)

text \<open>
  Claim C9. For every action string other than \<open>"BUY"\<close>, \<^verbatim>\<open>execute_order\<close> does what it
  does for \<open>"SELL"\<close>: the fill price is the reference price minus the slippage, and the
  result is the result for \<open>"SELL"\<close> with the action as given on the record; the balance,
  the cumulative P&L and the recorded P&L are those computed from the sell-side fill.
  \<open>execute_order\<close> has no error result and no branch that rejects an action.
\<close>

theorem non_buy_action_is_sell:
  assumes "action \<noteq> ''BUY''"
  shows "fill_price d action price = fsub price (slippage d) \<and>
         execute_order self d symbol action quantity price stop reasoning =
           (let r = execute_order self d symbol ''SELL'' quantity price stop reasoning
            in ((fst r)\<lparr>tr_action := action\<rparr>,
                (snd r)\<lparr>history := history self @ [(fst r)\<lparr>tr_action := action\<rparr>]\<rparr>)) \<and>
         (let net = fsub (profit d (fsub price (slippage d)) stop quantity) (commission quantity);
              r = execute_order self d symbol action quantity price stop reasoning
          in balance (snd r) = fadd (balance self) net \<and>
             pnl (snd r) = fadd (pnl self) net \<and>
             tr_pnl (fst r) = py_round net 2 \<and>
             tr_price (fst r) = py_round (fsub price (slippage d)) 2 \<and>
             tr_action (fst r) = action \<and>
             tr_result (fst r) = outcome d \<and>
             history (snd r) = history self @ [fst r])"
proof -
  have f: "fill_price d action price = fsub price (slippage d)"
    and s: "fill_price d ''SELL'' price = fsub price (slippage d)"
    using assms by (simp_all add: fill_price_def)
  show ?thesis
    by (simp add: f s Let_def prod_eq_iff execute_order_fst execute_order_snd)
qed

text \<open>
  Claim C6, as amended. With the draws given, \<^verbatim>\<open>execute_order\<close> adds to the balance and to
  the cumulative P&L the net amount \<open>profit - commission\<close>, where the commission is 2 per
  contract, the profit is \<open>|fill - stop| * quantity * 20 * rr\<close> with \<open>rr\<close> in \<open>[1.5, 3]\<close>
  on a WIN and \<open>- (|fill - stop| * quantity * 20)\<close> on a LOSS; the Trade records that net
  amount rounded to two decimals.
\<close>
theorem net_pnl_formula:
  assumes "valid_draws d"
  shows "(let fill = fill_price d action price;
              risk = fmul (fmul \<bar>fsub fill stop\<bar> (float_of_int quantity)) 20;
              gross = (if outcome d = WIN then fmul risk (rr d) else - risk);
              net = fsub gross (fmul 2 (float_of_int quantity));
              r = execute_order self d symbol action quantity price stop reasoning
          in balance (snd r) = fadd (balance self) net \<and>
             pnl (snd r) = fadd (pnl self) net \<and>
             tr_pnl (fst r) = py_round net 2 \<and>
             tr_result (fst r) = outcome d \<and>
             history (snd r) = history self @ [fst r] \<and>
             3 / 2 \<le> rr d \<and> rr d \<le> 3)"
  using assms
  by (cases "outcome d")
    (simp_all add: Let_def execute_order_fst execute_order_snd profit_def commission_def
      valid_draws_def)

section \<open>Rounding drift of the ledger\<close>

lemma fadd_error: "\<bar>fadd a b - (a + b)\<bar> \<le> \<bar>fadd a b\<bar> / 2 ^ 53"
  unfolding fadd_def by (rule fl_error)

lemma execute_order_drift:
  assumes "\<bar>balance (snd (execute_order self d symbol action quantity price stop reasoning))\<bar> \<le> M"
    and "\<bar>pnl (snd (execute_order self d symbol action quantity price stop reasoning))\<bar> \<le> M"
  shows "\<bar>balance (snd (execute_order self d symbol action quantity price stop reasoning)) -
          (100000 + pnl (snd (execute_order self d symbol action quantity price stop reasoning)))\<bar>
         \<le> \<bar>balance self - (100000 + pnl self)\<bar> + M / 2 ^ 52"
proof -
  define net where
    "net = fsub (profit d (fill_price d action price) stop quantity) (commission quantity)"
  define b where "b = fadd (balance self) net"
  define p where "p = fadd (pnl self) net"
  have b: "balance (snd (execute_order self d symbol action quantity price stop reasoning)) = b"
    and p: "pnl (snd (execute_order self d symbol action quantity price stop reasoning)) = p"
    by (simp_all add: execute_order_snd b_def p_def net_def)
  have "\<bar>b - (balance self + net)\<bar> \<le> \<bar>b\<bar> / 2 ^ 53"
    unfolding b_def by (rule fadd_error)
  moreover have "\<bar>b\<bar> / 2 ^ 53 \<le> M / 2 ^ 53"
    using assms(1) unfolding b by (simp add: divide_right_mono)
  ultimately have eb: "\<bar>b - (balance self + net)\<bar> \<le> M / 2 ^ 53" by linarith
  have "\<bar>p - (pnl self + net)\<bar> \<le> \<bar>p\<bar> / 2 ^ 53"
    unfolding p_def by (rule fadd_error)
  moreover have "\<bar>p\<bar> / 2 ^ 53 \<le> M / 2 ^ 53"
    using assms(2) unfolding p by (simp add: divide_right_mono)
  ultimately have ep: "\<bar>p - (pnl self + net)\<bar> \<le> M / 2 ^ 53" by linarith
  have "M / 2 ^ 53 + M / 2 ^ 53 = M / 2 ^ 52" by simp
  then have "\<bar>b - (100000 + p)\<bar> \<le> \<bar>balance self - (100000 + pnl self)\<bar> + M / 2 ^ 52"
    using eb ep by linarith
  then show ?thesis unfolding b p .
qed

lemma step_drift:
  assumes "\<bar>balance (exchange (step self c))\<bar> \<le> M"
    and "\<bar>pnl (exchange (step self c))\<bar> \<le> M"
  shows "\<bar>balance (exchange (step self c)) - (100000 + pnl (exchange (step self c)))\<bar>
         \<le> \<bar>balance (exchange self) - (100000 + pnl (exchange self))\<bar> + M / 2 ^ 52"
proof -
  have M: "0 \<le> M / 2 ^ 52" using assms(1) by simp
  show ?thesis
  proof (cases c)
    case c: (ExecutePaperTrade d symbol action price stop reasoning)
    show ?thesis
    proof (cases "2 ^ 1024 \<le> \<bar>tier_quotient (risk_budget_of self) price stop ''NQ''\<bar>")
      case True
      then have "step self c = self" by (simp add: c step_execute_paper_trade)
      then show ?thesis using M by simp
    next
      case False
      then show ?thesis
        using assms execute_order_drift [of "exchange self" d _ action _ price stop reasoning M]
        by (simp add: c step_execute_paper_trade)
    qed
  next
    case (ExecuteOrder d symbol action quantity price stop reasoning)
    then show ?thesis
      using assms
        execute_order_drift [of "exchange self" d symbol action quantity price stop reasoning M]
      by simp
  next
    case ResetAccount
    then show ?thesis using M by (simp add: reset_account_def reset_def Let_def)
  next
    case Reset
    then show ?thesis using M by (simp add: reset_def)
  qed (use M in simp_all)
qed

lemma run_drift:
  "stays_within M self cs \<Longrightarrow>
   \<bar>balance (exchange (run self cs)) - (100000 + pnl (exchange (run self cs)))\<bar>
     \<le> \<bar>balance (exchange self) - (100000 + pnl (exchange self))\<bar> + real (length cs) * M / 2 ^ 52"
proof (induction cs arbitrary: self)
  case Nil
  then show ?case by (simp add: run_Nil)
next
  case (Cons c cs)
  have w: "\<bar>balance (exchange (step self c))\<bar> \<le> M" "\<bar>pnl (exchange (step self c))\<bar> \<le> M"
    "stays_within M (step self c) cs"
    using Cons.prems by simp_all
  have "\<bar>balance (exchange (run (step self c) cs)) - (100000 + pnl (exchange (run (step self c) cs)))\<bar>
        \<le> \<bar>balance (exchange (step self c)) - (100000 + pnl (exchange (step self c)))\<bar>
           + real (length cs) * M / 2 ^ 52"
    by (rule Cons.IH [OF w(3)])
  moreover note step_drift [OF w(1) w(2)]
  moreover have "real (length (c # cs)) * M / 2 ^ 52 = M / 2 ^ 52 + real (length cs) * M / 2 ^ 52"
    by (simp add: algebra_simps add_divide_distrib)
  ultimately show ?case unfolding run_Cons by linarith
qed

text \<open>
  Claim C1, as amended. The balance equals 100000 plus the cumulative P&L up to the rounding
  of the float additions: after any sequence of \<open>n\<close> calls (\<^verbatim>\<open>execute_order\<close>,
  \<^verbatim>\<open>execute_paper_trade\<close>, \<^verbatim>\<open>can_trade\<close>, \<^verbatim>\<open>get_stats\<close>, \<^verbatim>\<open>get_status\<close>,
  \<^verbatim>\<open>reset\<close>, \<^verbatim>\<open>reset_account\<close>) from the initial state during which the balance and the
  P&L stay within \<open>M\<close> in absolute value, the two differ by at most \<open>n * M / 2 ^ 52\<close>.
  Each execution adds the same net amount to both sums, and each sum rounds on its own.
\<close>

theorem ledger_consistent_up_to_rounding:
  assumes "stays_within M RiskManager_init cs"
  shows "\<bar>balance (exchange (run RiskManager_init cs)) -
          (100000 + pnl (exchange (run RiskManager_init cs)))\<bar>
         \<le> real (length cs) * M / 2 ^ 52"
  using run_drift [OF assms] by (simp add: RiskManager_init_def PaperExchange_init_def)

section \<open>Evaluation on concrete runs\<close>

lemmas fl_eval =
  fl_def [unfolded Let_def] ilog2_def round_half_even_def [unfolded Let_def] compute_bitlen

lemmas float_ops = fadd_def fsub_def fmul_def fdiv_def float_of_int_def py_round_def py_int_def

lemma step_execute_paper_trade_values:
  assumes "balance (exchange self) = b" and "pnl (exchange self) = p"
    and "risk_per_trade_pct self = k"
    and "\<bar>tier_quotient (fmul (py_round b 2) k) price stop ''NQ''\<bar> < 2 ^ 1024"
    and "sz_contracts (sizing_rule (fmul (py_round b 2) k) price stop ''NQ'') = q"
    and "fsub (profit d (fill_price d action price) stop q) (commission q) = n"
    and "fadd b n = b'" and "fadd p n = p'"
  shows "balance (exchange (step self (ExecutePaperTrade d symbol action price stop reasoning))) = b'"
    and "pnl (exchange (step self (ExecutePaperTrade d symbol action price stop reasoning))) = p'"
    and "risk_per_trade_pct (step self (ExecutePaperTrade d symbol action price stop reasoning)) = k"
    and "trades_today (step self (ExecutePaperTrade d symbol action price stop reasoning)) =
           trades_today self + 1"
    and "returns self (ExecutePaperTrade d symbol action price stop reasoning)"
proof -
  have r: "risk_budget_of self = fmul (py_round b 2) k"
    using assms(1,3) by (simp add: risk_budget_of_def)
  have o: "\<not> 2 ^ 1024 \<le> \<bar>tier_quotient (risk_budget_of self) price stop ''NQ''\<bar>"
    using assms(4) unfolding r by linarith
  have s: "step self (ExecutePaperTrade d symbol action price stop reasoning) =
      self\<lparr>exchange :=
             snd (execute_order (exchange self) d
                    (sz_symbol (sizing_rule (fmul (py_round b 2) k) price stop ''NQ'')) action q
                    price stop reasoning),
           trades_today := trades_today self + 1\<rparr>"
    using o by (simp add: step_execute_paper_trade r assms(5))
  show "balance (exchange (step self (ExecutePaperTrade d symbol action price stop reasoning))) = b'"
    unfolding s using assms by (simp add: execute_order_snd)
  show "pnl (exchange (step self (ExecutePaperTrade d symbol action price stop reasoning))) = p'"
    unfolding s using assms by (simp add: execute_order_snd)
  show "risk_per_trade_pct (step self (ExecutePaperTrade d symbol action price stop reasoning)) = k"
    unfolding s using assms by simp
  show "trades_today (step self (ExecutePaperTrade d symbol action price stop reasoning)) =
           trades_today self + 1"
    unfolding s by simp
  show "returns self (ExecutePaperTrade d symbol action price stop reasoning)"
    unfolding returns_execute_paper_trade r by (rule assms(4))
qed

lemma win_151_net:
  "fsub (profit win_151 (fill_price win_151 ''BUY'' 20000) 19980 1) (commission 1) =
     5428069004004557 / 8796093022208"
  unfolding profit_def fill_price_def commission_def win_151_def Let_def
  by (simp add: float_ops fl_eval)

lemma sizing_two_wins_1:
  "sz_contracts (sizing_rule (fmul (py_round 100000 2) (fl (5 / 1000))) 20000 19980 ''NQ'') = 1"
  "\<bar>tier_quotient (fmul (py_round 100000 2) (fl (5 / 1000))) 20000 19980 ''NQ''\<bar> < 2 ^ 1024"
  unfolding sizing_rule_def tier_quotient_def Let_def by (simp_all add: float_ops fl_eval)

lemma sizing_two_wins_2:
  "sz_contracts (sizing_rule (fmul (py_round (3457177231346893 / 34359738368) 2) (fl (5 / 1000)))
     20000 19980 ''NQ'') = 1"
  "\<bar>tier_quotient (fmul (py_round (3457177231346893 / 34359738368) 2) (fl (5 / 1000)))
     20000 19980 ''NQ''\<bar> < 2 ^ 1024"
  unfolding sizing_rule_def tier_quotient_def Let_def by (simp_all add: float_ops fl_eval)

lemma two_wins_sums:
  "fadd 100000 (5428069004004557 / 8796093022208) = 3457177231346893 / 34359738368"
  "fadd 0 (5428069004004557 / 8796093022208) = 5428069004004557 / 8796093022208"
  "fadd (3457177231346893 / 34359738368) (5428069004004557 / 8796093022208) =
     1739190312946893 / 17179869184"
  "fadd (5428069004004557 / 8796093022208) (5428069004004557 / 8796093022208) =
     5428069004004557 / 4398046511104"
  "fadd 100000 (5428069004004557 / 4398046511104) = 6956761251787571 / 68719476736"
  by (simp_all add: float_ops fl_eval)

lemma init_values:
  "balance (exchange RiskManager_init) = 100000"
  "pnl (exchange RiskManager_init) = 0"
  "risk_per_trade_pct RiskManager_init = fl (5 / 1000)"
  "trades_today RiskManager_init = 0"
  by (simp_all add: RiskManager_init_def PaperExchange_init_def)

lemmas two_wins_first =
  step_execute_paper_trade_values
    [OF init_values(1) init_values(2) init_values(3) sizing_two_wins_1(2) sizing_two_wins_1(1)
      win_151_net two_wins_sums(1) two_wins_sums(2), of "''NQ=F''" "''Manual''"]

lemmas two_wins_then =
  step_execute_paper_trade_values
    [OF two_wins_first(1) two_wins_first(2) two_wins_first(3) sizing_two_wins_2(2)
      sizing_two_wins_2(1) win_151_net two_wins_sums(3) two_wins_sums(4),
      of "''NQ=F''" "''Manual''"]

lemma two_wins_run:
  "run RiskManager_init two_wins =
     step (step RiskManager_init
             (ExecutePaperTrade win_151 ''NQ=F'' ''BUY'' 20000 19980 ''Manual''))
       (ExecutePaperTrade win_151 ''NQ=F'' ''BUY'' 20000 19980 ''Manual'')"
  by (simp add: run_def two_wins_def)

lemma two_wins_second:
  "balance (exchange (run RiskManager_init two_wins)) = 1739190312946893 / 17179869184"
  "pnl (exchange (run RiskManager_init two_wins)) = 5428069004004557 / 4398046511104"
  unfolding two_wins_run by (rule two_wins_then(1), rule two_wins_then(2))

text \<open>
  Claim C1 as stated fails: after two winning trades placed as the \<^verbatim>\<open>/execute\<close> endpoint
  places them the balance is 101234.20000000001 and the P&L is 1234.2, so that the balance
  is neither \<open>100000 + pnl\<close> nor the float sum \<^verbatim>\<open>100000.0 + pnl\<close>, which is 101234.2.
\<close>

theorem ledger_equality_counterexample:
  "balance (exchange (run RiskManager_init two_wins)) \<noteq>
     100000 + pnl (exchange (run RiskManager_init two_wins)) \<and>
   balance (exchange (run RiskManager_init two_wins)) \<noteq>
     fadd 100000 (pnl (exchange (run RiskManager_init two_wins)))"
  by (simp add: two_wins_second two_wins_sums(5))

text \<open>The bound of claim C1 on the same run, with \<open>M = 131072\<close>.\<close>

theorem ledger_consistent_up_to_rounding_witness:
  "stays_within 131072 RiskManager_init two_wins \<and>
   \<bar>balance (exchange (run RiskManager_init two_wins)) -
     (100000 + pnl (exchange (run RiskManager_init two_wins)))\<bar> \<le> 2 * 131072 / 2 ^ 52"
proof -
  have h: "stays_within 131072 RiskManager_init two_wins"
    using two_wins_second [unfolded two_wins_run]
    by (simp add: two_wins_def two_wins_first)
  have l: "length two_wins = 2" by (simp add: two_wins_def)
  show ?thesis
    using h l ledger_consistent_up_to_rounding [OF h] by simp
qed

text \<open>
  Claim C3 as stated fails: an order placed on the exchange directly is an operation on the
  account that appends a trade and leaves \<^verbatim>\<open>trades_today\<close> at 0.
\<close>

theorem direct_order_count_counterexample:
  "trades_today (step RiskManager_init direct_order) = 0 \<and>
   length (history (exchange (step RiskManager_init direct_order))) = 1 \<and>
   trades_today (step RiskManager_init direct_order) \<noteq>
     int (length (history (exchange (step RiskManager_init direct_order))))"
  by (simp add: direct_order_def execute_order_snd RiskManager_init_def PaperExchange_init_def)

text \<open>Claim C3, as amended, on the run of two winning trades.\<close>

theorem trade_count_history_agreement_witness:
  "list_all risk_manager_call two_wins \<and>
   list_all is_execute_paper_trade two_wins \<and>
   all_return RiskManager_init two_wins \<and>
   trades_today (run RiskManager_init two_wins) = 2 \<and>
   length (history (exchange (run RiskManager_init two_wins))) = 2 \<and>
   step (run RiskManager_init two_wins) CanTrade = run RiskManager_init two_wins"
proof -
  have h: "\<forall>c\<in>set two_wins. risk_manager_call c" by (simp add: two_wins_def)
  have e: "\<forall>c\<in>set two_wins. is_execute_paper_trade c" by (simp add: two_wins_def)
  have l: "length two_wins = 2" by (simp add: two_wins_def)
  have a: "all_return RiskManager_init two_wins"
    using two_wins_first(5) two_wins_then(5) by (simp add: two_wins_def)
  show ?thesis
    using h e l a
      trade_count_history_agreement [of RiskManager_init RiskManager_init two_wins, OF _ h]
    by (simp add: list_all_iff)
qed

lemma loss_0_net_1:
  "fsub (profit loss_0 (fill_price loss_0 ''BUY'' 125) 100 1) (commission 1) = - 502"
  unfolding profit_def fill_price_def commission_def loss_0_def Let_def
  by (simp add: float_ops fl_eval)

lemma loss_0_net_2:
  "fsub (profit loss_0 (fill_price loss_0 ''BUY'' (fl (1247998 / 10000))) 100 1) (commission 1) =
     - (547552392585937 / 1099511627776)"
  unfolding profit_def fill_price_def commission_def loss_0_def Let_def
  by (simp add: float_ops fl_eval)

lemma sizing_two_losses_1:
  "sz_contracts (sizing_rule (fmul (py_round 100000 2) (fl (5 / 1000))) 125 100 ''NQ'') = 1"
  "\<bar>tier_quotient (fmul (py_round 100000 2) (fl (5 / 1000))) 125 100 ''NQ''\<bar> < 2 ^ 1024"
  unfolding sizing_rule_def tier_quotient_def Let_def by (simp_all add: float_ops fl_eval)

lemma sizing_two_losses_2:
  "sz_contracts (sizing_rule (fmul (py_round 99498 2) (fl (5 / 1000)))
     (fl (1247998 / 10000)) 100 ''NQ'') = 1"
  "\<bar>tier_quotient (fmul (py_round 99498 2) (fl (5 / 1000)))
     (fl (1247998 / 10000)) 100 ''NQ''\<bar> < 2 ^ 1024"
  unfolding sizing_rule_def tier_quotient_def Let_def by (simp_all add: float_ops fl_eval)

lemma two_losses_sums:
  "fadd 100000 (- 502) = 99498"
  "fadd 0 (- 502) = - 502"
  "fadd 99498 (- (547552392585937 / 1099511627776)) = 6803228471741907 / 68719476736"
  "fadd (- 502) (- (547552392585937 / 1099511627776)) = - (1099507229729489 / 1099511627776)"
  "py_round (- (1099507229729489 / 1099511627776)) 2 = - 1000"
  by (simp_all add: float_ops fl_eval)

lemmas two_losses_first =
  step_execute_paper_trade_values
    [OF init_values(1) init_values(2) init_values(3) sizing_two_losses_1(2)
      sizing_two_losses_1(1) loss_0_net_1 two_losses_sums(1) two_losses_sums(2),
      of "''NQ=F''" "''Manual''"]

lemmas two_losses_then =
  step_execute_paper_trade_values
    [OF two_losses_first(1) two_losses_first(2) two_losses_first(3) sizing_two_losses_2(2)
      sizing_two_losses_2(1) loss_0_net_2 two_losses_sums(3) two_losses_sums(4),
      of "''NQ=F''" "''Manual''"]

lemma two_losses_values:
  "pnl (exchange (run RiskManager_init two_losses)) = - (1099507229729489 / 1099511627776)"
  "trades_today (run RiskManager_init two_losses) = 2"
proof -
  have r: "run RiskManager_init two_losses =
    step (step RiskManager_init (ExecutePaperTrade loss_0 ''NQ=F'' ''BUY'' 125 100 ''Manual''))
      (ExecutePaperTrade loss_0 ''NQ=F'' ''BUY'' (fl (1247998 / 10000)) 100 ''Manual'')"
    by (simp add: run_def two_losses_def)
  show "pnl (exchange (run RiskManager_init two_losses)) = - (1099507229729489 / 1099511627776)"
    unfolding r by (rule two_losses_then(2))
  show "trades_today (run RiskManager_init two_losses) = 2"
    unfolding r using two_losses_first(4) two_losses_then(4) init_values(4) by simp
qed

text \<open>
  Claim C2 as stated fails: after two losing trades the raw P&L is -999.9960000000001,
  above -1000, and two trades were made, yet \<^verbatim>\<open>can_trade()\<close> reports the daily loss limit;
  the claim requires \<open>(True, "OK")\<close> there.
\<close>

theorem can_trade_raw_pnl_counterexample:
  "- 1000 < pnl (exchange (run RiskManager_init two_losses)) \<and>
   trades_today (run RiskManager_init two_losses) < 5 \<and>
   can_trade (run RiskManager_init two_losses) = (False, ''Daily Loss Limit Hit'') \<and>
   can_trade (run RiskManager_init two_losses) \<noteq> (True, ''OK'')"
proof -
  have "max_daily_loss RiskManager_init = 1000" "max_trades_daily RiskManager_init = 5"
    by (simp_all add: RiskManager_init_def)
  then have m: "max_daily_loss (run RiskManager_init two_losses) = 1000"
    "max_trades_daily (run RiskManager_init two_losses) = 5"
    using run_constants [of RiskManager_init two_losses] by simp_all
  show ?thesis
    by (simp add: can_trade_unfold two_losses_values two_losses_sums(5) m)
qed

text \<open>Claim C2, as amended, at a P&L of 0 with five trades and at a P&L of -1000.\<close>

theorem can_trade_decision_witness:
  "max_daily_loss (with_pnl 0 5) = 1000 \<and> max_trades_daily (with_pnl 0 5) = 5 \<and>
   pnl (exchange (with_pnl 0 5)) = 0 \<and> trades_today (with_pnl 0 5) = 5 \<and>
   can_trade (with_pnl 0 5) = (False, ''Max Trades Reached'') \<and>
   max_daily_loss (with_pnl (- 1000) 0) = 1000 \<and> max_trades_daily (with_pnl (- 1000) 0) = 5 \<and>
   pnl (exchange (with_pnl (- 1000) 0)) \<le> - 1000 \<and>
   can_trade (with_pnl (- 1000) 0) = (False, ''Daily Loss Limit Hit'')"
proof -
  have a: "max_daily_loss (with_pnl p n) = 1000" "max_trades_daily (with_pnl p n) = 5"
    "pnl (exchange (with_pnl p n)) = p" "trades_today (with_pnl p n) = n" for p n
    by (simp_all add: with_pnl_def RiskManager_init_def)
  show ?thesis
    using can_trade_decision [OF a(1) a(2), of 0 5] can_trade_decision [OF a(1) a(2), of "- 1000" 0]
    using py_round_le_minus_1000 [of "- 1000"]
    by (simp add: a py_round_0)
qed

text \<open>
  Claim C10. The daily-loss branch of \<^verbatim>\<open>can_trade\<close> is taken exactly when the cumulative
  P&L rounded to two decimals, which is the \<open>pnl\<close> that \<^verbatim>\<open>get_stats\<close> reports, is at most
  minus the daily limit: a raw P&L of -999.995 halts trading and one of -999.994 does not.
\<close>

theorem daily_loss_check_uses_rounded_pnl:
  "(can_trade self = (False, ''Daily Loss Limit Hit'')) =
     (py_round (pnl (exchange self)) 2 \<le> - of_int (max_daily_loss self)) \<and>
   st_pnl (get_stats (exchange self)) = py_round (pnl (exchange self)) 2 \<and>
   can_trade (with_pnl (fl (- (999995 / 1000))) 0) = (False, ''Daily Loss Limit Hit'') \<and>
   can_trade (with_pnl (fl (- (999994 / 1000))) 0) = (True, ''OK'')"
proof -
  have a: "py_round (fl (- (999995 / 1000))) 2 = - 1000"
    by (simp add: float_ops fl_eval)
  have b: "py_round (fl (- (999994 / 1000))) 2 = - (4398002530638889 / 4398046511104)"
    by (simp add: float_ops fl_eval)
  have c: "max_daily_loss (with_pnl p n) = 1000" "max_trades_daily (with_pnl p n) = 5"
    "pnl (exchange (with_pnl p n)) = p" "trades_today (with_pnl p n) = n" for p n
    by (simp_all add: with_pnl_def RiskManager_init_def)
  show ?thesis
    using a b by (simp add: can_trade_unfold get_stats_def Let_def c)
qed

lemma win_small_net:
  "fsub (profit win_small (fill_price win_small ''BUY'' (fl (10005 / 100))) 100 500)
     (commission 500) = - (35184372589 / 8796093022208)"
  unfolding profit_def fill_price_def commission_def win_small_def Let_def
  by (simp add: float_ops fl_eval)

lemma sizing_one_small_win:
  "sz_contracts (sizing_rule (fmul (py_round 100000 2) (fl (5 / 1000)))
     (fl (10005 / 100)) 100 ''NQ'') = 500"
  "\<bar>tier_quotient (fmul (py_round 100000 2) (fl (5 / 1000)))
     (fl (10005 / 100)) 100 ''NQ''\<bar> < 2 ^ 1024"
  unfolding sizing_rule_def tier_quotient_def Let_def by (simp_all add: float_ops fl_eval)

lemma one_small_win_sums:
  "fadd 100000 (- (35184372589 / 8796093022208)) = 6871947398722089 / 68719476736"
  "fadd 0 (- (35184372589 / 8796093022208)) = - (35184372589 / 8796093022208)"
  by (simp_all add: float_ops fl_eval)

lemma one_small_win_balance:
  "balance (exchange (run RiskManager_init one_small_win)) = 6871947398722089 / 68719476736"
proof -
  note v = step_execute_paper_trade_values
    [OF init_values(1) init_values(2) init_values(3) sizing_one_small_win(2)
      sizing_one_small_win(1) win_small_net one_small_win_sums(1) one_small_win_sums(2)]
  have r: "run RiskManager_init one_small_win =
    step RiskManager_init
      (ExecutePaperTrade win_small ''NQ=F'' ''BUY'' (fl (10005 / 100)) 100 ''Manual'')"
    by (simp add: run_def one_small_win_def)
  show ?thesis unfolding r by (rule v(1))
qed

lemma sizing_after_small_win:
  "sizing_rule (fmul (py_round (6871947398722089 / 68719476736) 2) (fl (5 / 1000)))
     20025 20000 ''NQ'' = \<lparr>sz_type = MINI, sz_symbol = ''NQ'', sz_contracts = 1\<rparr>"
  "sizing_rule (fmul (6871947398722089 / 68719476736) (fl (5 / 1000)))
     20025 20000 ''NQ'' = \<lparr>sz_type = MICRO, sz_symbol = ''MNQ'', sz_contracts = 9\<rparr>"
  "fmul (6871947398722089 / 68719476736) (fl (5 / 1000)) < fmul \<bar>fsub 20025 20000\<bar> 20"
  "\<not> 2 ^ 1024 \<le> \<bar>tier_quotient (fmul (py_round (6871947398722089 / 68719476736) 2)
                                   (fl (5 / 1000))) 20025 20000 ''NQ''\<bar>"
  unfolding sizing_rule_def tier_quotient_def Let_def by (simp_all add: float_ops fl_eval)

text \<open>
  Claim C4 as stated fails: after one small winning trade the balance is 99999.99599999994;
  0.5% of it is below the 500 that one standard contract risks at a distance of 25 points,
  so that the claim asks for the micro tier with 9 contracts, and the program, which sizes
  from the balance rounded to 100000.0, answers the standard tier with 1 contract.
\<close>

theorem raw_balance_sizing_counterexample:
  "calculate_position_size (run RiskManager_init one_small_win) 20025 20000 ''NQ'' =
     Inr \<lparr>sz_type = MINI, sz_symbol = ''NQ'', sz_contracts = 1\<rparr> \<and>
   fmul (balance (exchange (run RiskManager_init one_small_win))) (fl (5 / 1000)) <
     fmul \<bar>fsub 20025 20000\<bar> 20 \<and>
   sizing_rule (fmul (balance (exchange (run RiskManager_init one_small_win))) (fl (5 / 1000)))
     20025 20000 ''NQ'' = \<lparr>sz_type = MICRO, sz_symbol = ''MNQ'', sz_contracts = 9\<rparr> \<and>
   calculate_position_size (run RiskManager_init one_small_win) 20025 20000 ''NQ'' \<noteq>
     Inr (sizing_rule
            (fmul (balance (exchange (run RiskManager_init one_small_win))) (fl (5 / 1000)))
            20025 20000 ''NQ'')"
proof -
  have k: "risk_per_trade_pct (run RiskManager_init one_small_win) = fl (5 / 1000)"
    using run_constants [of RiskManager_init one_small_win] init_values(3) by simp
  have r: "risk_budget_of (run RiskManager_init one_small_win) =
      fmul (py_round (6871947398722089 / 68719476736) 2) (fl (5 / 1000))"
    unfolding risk_budget_of_def k one_small_win_balance ..
  show ?thesis
    unfolding calculate_position_size_rule r if_not_P [OF sizing_after_small_win(4)]
      one_small_win_balance sizing_after_small_win(1) sizing_after_small_win(2)
    using sizing_after_small_win(3) by simp
qed

lemma sizing_scenario:
  "sizing_rule (fmul (py_round 100000 2) (fl (5 / 1000))) 20000 19990 ''NQ'' =
     \<lparr>sz_type = MINI, sz_symbol = ''NQ'', sz_contracts = 2\<rparr>"
  "\<not> 2 ^ 1024 \<le> \<bar>tier_quotient (fmul (py_round 100000 2) (fl (5 / 1000))) 20000 19990 ''NQ''\<bar>"
  "fmul (py_round 100000 2) (fl (5 / 1000)) = 500"
  "fsub 20000 19990 = 10"
  unfolding sizing_rule_def tier_quotient_def Let_def by (simp_all add: float_ops fl_eval)

text \<open>
  Claim C4, as amended. In every reachable state \<^verbatim>\<open>calculate_position_size\<close>, where it
  returns a decision, follows the sizing rule with the risk budget taken as 0.5% of the
  balance rounded to two decimals, the balance that \<^verbatim>\<open>get_stats\<close> reports; it returns one
  unless the float quotient of the rule overflows. In particular an entry of 20000 with a
  stop of 19990 at a balance of 100000 gives the standard (MINI) tier with 2 contracts.
\<close>

theorem position_sizing_rule:
  "calculate_position_size (run RiskManager_init cs) entry_price stop_price instrument =
     (if 2 ^ 1024 \<le>
           \<bar>tier_quotient (fmul (py_round (balance (exchange (run RiskManager_init cs))) 2)
                            (fl (5 / 1000)))
              entry_price stop_price instrument\<bar>
      then Inl OverflowError
      else Inr (sizing_rule (fmul (py_round (balance (exchange (run RiskManager_init cs))) 2)
                               (fl (5 / 1000)))
                  entry_price stop_price instrument)) \<and>
   calculate_position_size RiskManager_init 20000 19990 ''NQ'' =
     Inr \<lparr>sz_type = MINI, sz_symbol = ''NQ'', sz_contracts = 2\<rparr>"
proof -
  have "risk_per_trade_pct (run RiskManager_init cs) = fl (5 / 1000)"
    using run_constants [of RiskManager_init cs] init_values(3) by simp
  then have 1: "risk_budget_of (run RiskManager_init cs) =
      fmul (py_round (balance (exchange (run RiskManager_init cs))) 2) (fl (5 / 1000))"
    by (simp add: risk_budget_of_def)
  have 2: "risk_budget_of RiskManager_init = fmul (py_round 100000 2) (fl (5 / 1000))"
    by (simp add: risk_budget_of_def init_values)
  have 3: "calculate_position_size RiskManager_init 20000 19990 ''NQ'' =
     Inr \<lparr>sz_type = MINI, sz_symbol = ''NQ'', sz_contracts = 2\<rparr>"
    unfolding calculate_position_size_rule 2 if_not_P [OF sizing_scenario(2)] sizing_scenario(1) ..
  show ?thesis using 3 by (simp only: calculate_position_size_rule 1)
qed

text \<open>
  Claim C5 as stated fails: at the initial balance, with the entry at the smallest positive
  float and the stop at 0, the distance is not zero, the risk of one standard contract is
  1e-322, and the quotient 500 / 1e-322 overflows to infinity, on which \<^verbatim>\<open>int\<close> raises
  \<^verbatim>\<open>OverflowError\<close>: no contract count is returned.
\<close>

theorem sizing_overflow_counterexample:
  "calculate_position_size RiskManager_init smallest_float 0 ''NQ'' = Inl OverflowError \<and>
   fmul \<bar>fsub smallest_float 0\<bar> 20 \<noteq> 0"
proof -
  define e :: real where "e = 2 powi (- 1074)"
  define B :: real where "B = 25 * 2 powi 1074"
  have sf: "smallest_float = e" by (simp only: smallest_float_def e_def)
  have pos: "0 < e" unfolding e_def by simp
  have "(2::real) powi (- 1074) \<le> 2 powi 0" by (intro power_int_increasing) simp_all
  then have small: "e \<le> 1" unfolding e_def by simp
  have "fl (real_of_int 1 * 2 powi (- 1074)) = real_of_int 1 * 2 powi (- 1074)"
    by (rule fl_exact) simp
  then have one: "fl e = e" unfolding e_def by simp
  have "fl (real_of_int 20 * 2 powi (- 1074)) = real_of_int 20 * 2 powi (- 1074)"
    by (rule fl_exact) simp
  then have "fl (20 * e) = 20 * e" unfolding e_def by simp
  then have twenty: "fl (e * 20) = 20 * e" by (simp only: mult.commute)
  have "(2::real) powi (- 1074) * 2 powi 1074 = 2 powi (- 1074 + 1074)"
    by (rule power_int_add [symmetric]) simp
  then have inv: "e * 2 powi 1074 = 1" unfolding e_def by simp
  have "20 * e * B = 500 * (e * 2 powi 1074)" unfolding B_def by simp
  then have "20 * e * B = 500" unfolding inv by simp
  moreover have "20 * e \<noteq> 0" using pos by simp
  ultimately have "500 / (20 * e) = B" by (simp add: field_simps)
  moreover have "fl (real_of_int 25 * 2 powi 1074) = real_of_int 25 * 2 powi 1074"
    by (rule fl_exact) simp
  then have "fl B = B" unfolding B_def by simp
  ultimately have quot: "fl (500 / (20 * e)) = B" by simp
  have "(2::real) powi 1024 \<le> 2 powi 1074" by (intro power_int_increasing) simp_all
  moreover have "(2::real) powi 1024 = 2 ^ 1024" by (simp only: power_int_numeral)
  moreover have "(0::real) \<le> 2 powi 1074" by simp
  then have "\<bar>B\<bar> = 25 * 2 powi 1074" unfolding B_def by (simp add: abs_mult)
  ultimately have big: "(2::real) ^ 1024 \<le> \<bar>B\<bar>" by linarith
  have ne: "e \<noteq> 0" using pos by simp
  have rb: "risk_budget_of RiskManager_init = 500"
    unfolding risk_budget_of_def init_values by (rule sizing_scenario(3))
  have ge: "20 * e \<le> 500" using small by linarith
  have a: "\<bar>e\<bar> = e" using pos by simp
  have tq: "tier_quotient 500 smallest_float 0 ''NQ'' = B"
    using ne ge quot by (simp add: tier_quotient_def Let_def fsub_def fmul_def sf one a twenty)
  have d: "fmul \<bar>fsub smallest_float 0\<bar> 20 \<noteq> 0"
    using ne by (simp add: fmul_eq_0_iff fsub_eq_0_iff sf)
  have "calculate_position_size RiskManager_init smallest_float 0 ''NQ'' = Inl OverflowError"
    unfolding calculate_position_size_rule rb tq using big by (simp only: if_True)
  then show ?thesis using d by blast
qed

text \<open>Claim C5, as amended, at an entry of 20000 with the stop at 19990.\<close>

theorem sizing_never_divides_by_zero_witness:
  "2 powi (- 500) \<le> \<bar>fsub 20000 19990\<bar> \<and>
   \<bar>risk_budget_of RiskManager_init\<bar> \<le> 2 ^ 500 \<and>
   (\<exists>sz. calculate_position_size RiskManager_init 20000 19990 ''NQ'' = Inr sz \<and>
         1 \<le> sz_contracts sz)"
proof -
  have "(2::real) powi (- 500) \<le> 2 powi 0" by (intro power_int_increasing) simp_all
  then have d: "2 powi (- 500) \<le> \<bar>fsub 20000 19990\<bar>" by (simp add: sizing_scenario(4))
  have rb: "risk_budget_of RiskManager_init = 500"
    unfolding risk_budget_of_def init_values by (rule sizing_scenario(3))
  have "(1::real) \<le> 2 ^ 500" by (rule one_le_power) simp
  moreover have "(500::real) \<le> 2 ^ 9 * 1" by simp
  moreover have "(2::real) ^ 9 * 1 \<le> 2 ^ 9 * 2 ^ 491" by (intro mult_left_mono one_le_power) simp_all
  moreover have "(2::real) ^ 9 * 2 ^ 491 = 2 ^ 500" by (simp flip: power_add)
  ultimately have b: "\<bar>risk_budget_of RiskManager_init\<bar> \<le> 2 ^ 500" unfolding rb by linarith
  show ?thesis
    using d b sizing_never_divides_by_zero [of RiskManager_init 20000 19990 "''NQ''"] by blast
qed

text \<open>Claim C8 on the first of the two winning trades.\<close>

theorem symbol_argument_ignored_witness:
  "\<bar>tier_quotient (risk_budget_of RiskManager_init) 20000 19980 ''NQ''\<bar> < 2 ^ 1024 \<and>
   (\<exists>trade sz self1.
      execute_paper_trade RiskManager_init win_151 ''NQ=F'' ''BUY'' 20000 19980 ''Manual'' =
        Inr ((trade, sz), self1) \<and>
      calculate_position_size RiskManager_init 20000 19980 ''NQ'' = Inr sz \<and>
      tr_symbol trade = sz_symbol sz \<and>
      last (history (exchange self1)) = trade \<and>
      ((sz_type sz = MINI \<and> tr_symbol trade = ''NQ'') \<or>
       (sz_type sz = MICRO \<and> tr_symbol trade = ''MNQ'')))"
proof -
  have rb: "risk_budget_of RiskManager_init = fmul (py_round 100000 2) (fl (5 / 1000))"
    by (simp add: risk_budget_of_def init_values)
  have q: "\<bar>tier_quotient (risk_budget_of RiskManager_init) 20000 19980 ''NQ''\<bar> < 2 ^ 1024"
    unfolding rb by (rule sizing_two_wins_1(2))
  show ?thesis
    using q
      symbol_argument_ignored [of RiskManager_init win_151 "''NQ=F''" "''BUY''" 20000 19980
        "''Manual''" "''NQ=F''"]
    by blast
qed

lemma win_quarter_net:
  "fsub (profit win_quarter (fill_price win_quarter ''BUY'' 100) 100 1) (commission 1) = 93 / 16"
  unfolding profit_def fill_price_def commission_def win_quarter_def Let_def
  by (simp add: float_ops fl_eval)

lemma win_quarter_rounded:
  "py_round (93 / 16) 2 = 6541478458755645 / 1125899906842624"
  "fadd 100000 (93 / 16) = 1600093 / 16"
  "fadd 0 (93 / 16) = 93 / 16"
  "fl (581 / 100) = 6541478458755645 / 1125899906842624"
  by (simp_all add: float_ops fl_eval)

text \<open>
  Claim C6 as stated fails: a winning BUY of one contract at 100 with the stop at 100, a
  quarter point of slippage and a reward multiple of 1.5625 nets 5.8125, which is added to
  the balance, while the Trade records 5.81.
\<close>

theorem trade_pnl_is_rounded_counterexample:
  "fsub (profit win_quarter (fill_price win_quarter ''BUY'' 100) 100 1) (commission 1) = 93 / 16 \<and>
   balance (snd (execute_order PaperExchange_init win_quarter ''NQ'' ''BUY'' 1 100 100 ''Manual''))
     = 100000 + 93 / 16 \<and>
   tr_pnl (fst (execute_order PaperExchange_init win_quarter ''NQ'' ''BUY'' 1 100 100 ''Manual''))
     = fl (581 / 100) \<and>
   tr_pnl (fst (execute_order PaperExchange_init win_quarter ''NQ'' ''BUY'' 1 100 100 ''Manual''))
     \<noteq> fsub (profit win_quarter (fill_price win_quarter ''BUY'' 100) 100 1) (commission 1)"
  unfolding execute_order_fst execute_order_snd win_quarter_net win_quarter_rounded
  by (simp add: PaperExchange_init_def win_quarter_rounded)

text \<open>Claim C6, as amended, on the same order.\<close>

theorem net_pnl_formula_witness:
  "valid_draws win_quarter \<and>
   balance (snd (execute_order PaperExchange_init win_quarter ''NQ'' ''BUY'' 1 100 100 ''Manual''))
     = 1600093 / 16 \<and>
   pnl (snd (execute_order PaperExchange_init win_quarter ''NQ'' ''BUY'' 1 100 100 ''Manual''))
     = 93 / 16 \<and>
   tr_pnl (fst (execute_order PaperExchange_init win_quarter ''NQ'' ''BUY'' 1 100 100 ''Manual''))
     = 6541478458755645 / 1125899906842624"
proof -
  have v: "valid_draws win_quarter" by (simp add: valid_draws_def win_quarter_def)
  have o: "outcome win_quarter = WIN" by (simp add: win_quarter_def)
  have n: "fsub (fmul (fmul (fmul \<bar>fsub (fill_price win_quarter ''BUY'' 100) 100\<bar> (float_of_int 1))
             20) (rr win_quarter)) (fmul 2 (float_of_int 1)) = 93 / 16"
    using win_quarter_net by (simp add: profit_def commission_def o Let_def)
  show ?thesis
    using v net_pnl_formula [OF v, of "''BUY''" 100 100 1 PaperExchange_init "''NQ''" "''Manual''"]
    by (simp add: Let_def o n win_quarter_rounded PaperExchange_init_def)
qed

lemma win_quarter_sell:
  "fsub 100 (slippage win_quarter) = 399 / 4"
  "fsub (profit win_quarter (399 / 4) 99 1) (commission 1) = 343 / 16"
  "fadd 100000 (343 / 16) = 1600343 / 16"
  unfolding profit_def commission_def win_quarter_def Let_def
  by (simp_all add: float_ops fl_eval)

text \<open>
  Claim C9 at the action \<open>"buy"\<close>: a reference price of 100 with a quarter point of slippage
  fills at 99.75, and with the stop at 99 the winning order nets 21.4375 (a BUY, filled at
  100.25, would net 37.0625).
\<close>

theorem non_buy_action_is_sell_witness:
  "''buy'' \<noteq> ''BUY'' \<and>
   fill_price win_quarter ''buy'' 100 = 399 / 4 \<and>
   balance (snd (execute_order PaperExchange_init win_quarter ''NQ'' ''buy'' 1 100 99 ''Manual''))
     = 1600343 / 16 \<and>
   tr_action (fst (execute_order PaperExchange_init win_quarter ''NQ'' ''buy'' 1 100 99 ''Manual''))
     = ''buy''"
proof -
  have b: "balance PaperExchange_init = 100000" by (simp add: PaperExchange_init_def)
  have n: "''buy'' \<noteq> ''BUY''" by simp
  note t = non_buy_action_is_sell [OF n, of win_quarter 100 PaperExchange_init "''NQ''" 1 99
      "''Manual''"]
  have 1: "fill_price win_quarter ''buy'' 100 = 399 / 4"
    using t by (simp add: win_quarter_sell)
  have 2: "balance (snd (execute_order PaperExchange_init win_quarter ''NQ'' ''buy'' 1 100 99
                          ''Manual'')) = 1600343 / 16"
    using conjunct2 [OF conjunct2 [OF t]] by (simp add: Let_def win_quarter_sell b)
  have 3: "tr_action (fst (execute_order PaperExchange_init win_quarter ''NQ'' ''buy'' 1 100 99
                            ''Manual'')) = ''buy''"
    using conjunct2 [OF conjunct2 [OF t]] by (simp add: Let_def)
  show ?thesis using n 1 2 3 by blast
qed

end
